theory Spec2Isabelle
  imports Complex_Main "HOL-Library.Sublist"
begin

chapter \<open>Murmur: session orchestration, capture, voice gate, insertion chain, transport\<close>

text \<open>
  A shallow embedding of the Python sources \<^verbatim>\<open>audio_capture.py\<close>, \<^verbatim>\<open>text_injector.py\<close>,
  \<^verbatim>\<open>ipc_server.py\<close>, \<^verbatim>\<open>transcriber.py\<close> and \<^verbatim>\<open>daemon.py\<close>.

  Conventions.
  \<^item> A method of a class becomes a function that takes the object (a record) and returns
    the updated object together with its result.
  \<^item> A raised exception is a value: \<open>exn\<close> holds what \<^verbatim>\<open>str(e)\<close> prints.
  \<^item> What the operating system, the audio driver, the speech engine and the clock do
    is not code of the repository: each such call takes its outcome from a parameter
    (an environment record), so that every theorem holds for every outcome.
  \<^item> Each method is one atomic step. Interleavings of threads are not modelled.
  \<^item> Times are \<open>real\<close> numbers standing for Python floats.
\<close>

section \<open>Python values used by several modules\<close>

datatype exn = Exception string

fun str_exn :: "exn \<Rightarrow> string" where
  "str_exn (Exception m) = m"

text \<open>\<^verbatim>\<open>str(x)\<close> of an optional exception, as an f-string prints it.\<close>

fun str_opt_exn :: "exn option \<Rightarrow> string" where
  "str_opt_exn None = ''None''"
| "str_opt_exn (Some e) = str_exn e"

text \<open>
  \<^verbatim>\<open>range(start, stop, step)\<close>. A zero step raises \<^verbatim>\<open>ValueError\<close> (the value \<open>None\<close>);
  otherwise the length is the one CPython computes.
\<close>

definition py_range :: "int \<Rightarrow> int \<Rightarrow> int \<Rightarrow> int list option" where
  "py_range start stop step =
     (if step = 0 then None
      else if 0 < step then
        Some (map (\<lambda>k. start + int k * step) [0 ..< nat ((stop - start + step - 1) div step)])
      else
        Some (map (\<lambda>k. start + int k * step) [0 ..< nat ((start - stop - step - 1) div (- step))]))"

text \<open>
  Characters stand for code points below 256. \<^verbatim>\<open>str.isspace\<close> holds there for tab, line
  feed, vertical tab, form feed, carriage return, the four separators 28 to 31, the
  space, and the code points 133 and 160.
\<close>

definition is_space :: "char \<Rightarrow> bool" where
  "is_space c = (of_char c \<in> {9, 10, 11, 12, 13, 28, 29, 30, 31, 32, 133, 160 :: nat})"

definition py_strip :: "string \<Rightarrow> string" where
  "py_strip s = rev (dropWhile is_space (rev (dropWhile is_space s)))"

text \<open>\<^verbatim>\<open>s.split()\<close>: the maximal runs of characters that are not white space.\<close>

fun split_ws :: "string \<Rightarrow> string \<Rightarrow> string list" where
  "split_ws [] w = (if w = [] then [] else [w])"
| "split_ws (c # cs) w =
     (if is_space c then (if w = [] then split_ws cs [] else w # split_ws cs [])
      else split_ws cs (w @ [c]))"

definition py_split :: "string \<Rightarrow> string list" where
  "py_split s = split_ws s []"

text \<open>\<^verbatim>\<open>" ".join(parts)\<close>.\<close>

fun join_space :: "string list \<Rightarrow> string" where
  "join_space [] = []"
| "join_space [p] = p"
| "join_space (p # q # ps) = p @ '' '' @ join_space (q # ps)"

text \<open>\<^verbatim>\<open>str(n)\<close> of a natural number.\<close>

definition digit_char :: "nat \<Rightarrow> char" where
  "digit_char d = ''0123456789'' ! d"

function str_nat :: "nat \<Rightarrow> string" where
  "str_nat n = (if n < 10 then [digit_char n] else str_nat (n div 10) @ [digit_char (n mod 10)])"
  by pat_completeness auto
termination
  by (relation "measure id") auto

text \<open>\<^verbatim>\<open>str(i)\<close> of an integer.\<close>

definition str_int :: "int \<Rightarrow> string" where
  "str_int i = (if i < 0 then CHR ''-'' # str_nat (nat (- i)) else str_nat (nat i))"

section \<open>Audio capture (\<^verbatim>\<open>audio_capture.py\<close>)\<close>

text \<open>
  An element of \<^verbatim>\<open>audio_buffer\<close>. With one channel the callback extends the buffer by
  the samples of column 0; with several channels \<^verbatim>\<open>extend\<close> iterates the rows of the
  two-dimensional block, so each element is a row.
\<close>

datatype 'a buffered = Sample 'a | Row "'a list"

text \<open>
  Opening the stream: \<^verbatim>\<open>sd.InputStream(...)\<close> may raise before \<^verbatim>\<open>self.stream\<close> is
  assigned, and \<^verbatim>\<open>self.stream.start()\<close> may raise after it.
\<close>

datatype open_result = OpenOk | CtorRaises exn | StartRaises exn

text \<open>
  The fields of \<^verbatim>\<open>AudioCapture\<close> that its methods read or write. \<open>stream\<close> is \<open>None\<close>
  or the number of the stream object it holds; \<open>streams_opened\<close> counts the
  \<^verbatim>\<open>InputStream\<close> objects constructed so far (it numbers them, the source has no such
  field). \<open>capture_thread\<close> says whether the processing thread was started, and
  \<open>waveform_log\<close> lists the blocks handed to the waveform callback.
\<close>

record 'a AudioCapture =
  sample_rate :: nat
  channels :: nat
  recording :: bool
  stream :: "nat option"
  streams_opened :: nat
  audio_buffer :: "'a buffered list"
  chunk_callback_set :: bool
  waveform_callback_set :: bool
  waveform_log :: "'a buffered list list"
  capture_thread :: bool
  start_time :: real
  total_chunks :: nat
  voiced_frames :: nat
  total_frames :: nat

text \<open>\<^verbatim>\<open>AudioCapture.__init__\<close> followed by the two optional setters.\<close>

definition AudioCapture_init :: "nat \<Rightarrow> nat \<Rightarrow> bool \<Rightarrow> bool \<Rightarrow> 'a AudioCapture" where
  "AudioCapture_init rate chans chunk_cb wave_cb =
     \<lparr> sample_rate = rate, channels = chans, recording = False, stream = None,
       streams_opened = 0, audio_buffer = [], chunk_callback_set = chunk_cb,
       waveform_callback_set = wave_cb, waveform_log = [], capture_thread = False,
       start_time = 0, total_chunks = 0, voiced_frames = 0, total_frames = 0 \<rparr>"

text \<open>
  \<^verbatim>\<open>AudioCapture.start\<close>. \<open>now\<close> is \<^verbatim>\<open>time.time()\<close>, \<open>opening\<close> what opening the stream
  does. The result is the exception that \<^verbatim>\<open>start\<close> re-raises, if any.
\<close>

definition AudioCapture_start ::
  "real \<Rightarrow> open_result \<Rightarrow> 'a AudioCapture \<Rightarrow> exn option \<times> 'a AudioCapture" where
  "AudioCapture_start now opening ac =
     (if recording ac then (None, ac)
      else
        let ac1 = ac\<lparr> recording := True, audio_buffer := [], start_time := now,
                      total_chunks := 0, voiced_frames := 0, total_frames := 0 \<rparr>
        in case opening of
             CtorRaises e \<Rightarrow> (Some e, ac1\<lparr> recording := False \<rparr>)
           | StartRaises e \<Rightarrow>
               (Some e, ac1\<lparr> stream := Some (streams_opened ac1),
                              streams_opened := streams_opened ac1 + 1,
                              recording := False \<rparr>)
           | OpenOk \<Rightarrow>
               let ac2 = ac1\<lparr> stream := Some (streams_opened ac1),
                               streams_opened := streams_opened ac1 + 1 \<rparr>
               in (None, if chunk_callback_set ac2 then ac2\<lparr> capture_thread := True \<rparr> else ac2))"

text \<open>
  \<^verbatim>\<open>AudioCapture.stop\<close>. \<open>closing\<close> is the exception that \<^verbatim>\<open>stream.stop()\<close> or
  \<^verbatim>\<open>stream.close()\<close> raises, if any. The returned array is built from the buffer; the
  buffer itself is not cleared here but by the next \<^verbatim>\<open>start\<close>. The samples are
  already 32-bit floats, so the conversion to a float32 array keeps them. Waiting for the
  processing thread changes nothing in batch mode, where no such thread exists; in
  streaming mode that thread takes chunks out of the buffer on its own, which this
  step does not describe.
\<close>

definition AudioCapture_stop ::
  "exn option \<Rightarrow> 'a AudioCapture \<Rightarrow> (exn + 'a buffered list) \<times> 'a AudioCapture" where
  "AudioCapture_stop closing ac =
     (let ac1 = ac\<lparr> recording := False \<rparr>
      in case stream ac1 of
           None \<Rightarrow> (Inr (audio_buffer ac1), ac1)
         | Some h \<Rightarrow>
             (case closing of
                Some e \<Rightarrow> (Inl e, ac1)
              | None \<Rightarrow> (Inr (audio_buffer ac1), ac1\<lparr> stream := None \<rparr>)))"

text \<open>
  A block \<^verbatim>\<open>indata\<close> has one row per frame and one column per channel; a row is its
  first value and the rest. The callback keeps
  \<^verbatim>\<open>indata[:, 0].copy() if self.channels == 1 else indata.copy()\<close>.
\<close>

definition copy_block :: "nat \<Rightarrow> ('a \<times> 'a list) list \<Rightarrow> 'a buffered list" where
  "copy_block chans indata =
     (if chans = 1 then map (\<lambda>r. Sample (fst r)) indata
      else map (\<lambda>r. Row (fst r # snd r)) indata)"

text \<open>
  \<^verbatim>\<open>AudioCapture._audio_callback\<close>. An exception of the waveform callback is caught and
  logged, so it leaves no trace in the object.
\<close>

definition audio_callback :: "('a \<times> 'a list) list \<Rightarrow> 'a AudioCapture \<Rightarrow> 'a AudioCapture" where
  "audio_callback indata ac =
     (if \<not> recording ac then ac
      else
        let audio_data = copy_block (channels ac) indata;
            ac1 = ac\<lparr> audio_buffer := audio_buffer ac @ audio_data \<rparr>
        in if waveform_callback_set ac1
           then ac1\<lparr> waveform_log := waveform_log ac1 @ [audio_data] \<rparr>
           else ac1)"

text \<open>The driver delivering a sequence of blocks, one callback each.\<close>

definition deliver :: "('a \<times> 'a list) list list \<Rightarrow> 'a AudioCapture \<Rightarrow> 'a AudioCapture" where
  "deliver blocks ac = foldl (\<lambda>a b. audio_callback b a) ac blocks"

subsection \<open>The voice gate (\<^verbatim>\<open>AudioCapture._contains_voice\<close>)\<close>

text \<open>
  One iteration of the loop over the frame offsets. \<open>is_speech\<close> is the external
  classifier \<^verbatim>\<open>self.vad.is_speech(frame, self.sample_rate)\<close>; \<open>None\<close> means it raised,
  and then the \<^verbatim>\<open>except\<close> branch continues with the next offset. The loop state is
  \<^verbatim>\<open>voiced_count\<close>, \<^verbatim>\<open>frame_count\<close> and the object, whose lifetime counters
  \<^verbatim>\<open>total_frames\<close> and \<^verbatim>\<open>voiced_frames\<close> are updated on the way.
\<close>

definition vad_frame ::
  "('b list \<Rightarrow> nat \<Rightarrow> bool option) \<Rightarrow> 'b list \<Rightarrow> int \<Rightarrow>
   nat \<times> nat \<times> 'a AudioCapture \<Rightarrow> int \<Rightarrow> nat \<times> nat \<times> 'a AudioCapture" where
  "vad_frame is_speech audio_int16 frame_samples acc i =
     (case acc of (voiced_count, frame_count, ac) \<Rightarrow>
        (case is_speech (take (nat frame_samples) (drop (nat i) audio_int16)) (sample_rate ac) of
           None \<Rightarrow> (voiced_count, frame_count, ac)
         | Some speech \<Rightarrow>
             let ac1 = ac\<lparr> total_frames := total_frames ac + 1 \<rparr>
             in if speech
                then (voiced_count + 1, frame_count + 1,
                      ac1\<lparr> voiced_frames := voiced_frames ac1 + 1 \<rparr>)
                else (voiced_count, frame_count + 1, ac1)))"

text \<open>
  The loop \<^verbatim>\<open>for i in range(0, len(audio_int16) - frame_samples, frame_samples)\<close>.
  \<open>quantize\<close> is the conversion of one sample to a 16-bit integer. The result is
  \<open>None\<close> when \<^verbatim>\<open>range\<close> raises.
\<close>

definition vad_loop ::
  "('a \<Rightarrow> 'b) \<Rightarrow> ('b list \<Rightarrow> nat \<Rightarrow> bool option) \<Rightarrow> 'a AudioCapture \<Rightarrow> 'a list \<Rightarrow> int \<Rightarrow>
   (nat \<times> nat \<times> 'a AudioCapture) option" where
  "vad_loop quantize is_speech ac audio frame_samples =
     (let audio_int16 = map quantize audio
      in case py_range 0 (int (length audio_int16) - frame_samples) frame_samples of
           None \<Rightarrow> None
         | Some offsets \<Rightarrow>
             Some (foldl (vad_frame is_speech audio_int16 frame_samples) (0, 0, ac) offsets))"

text \<open>
  The decision on the two counts. The quotient of two machine integers is correctly
  rounded, and \<^verbatim>\<open>0.15\<close> is the float nearest to 15/100, so the float comparison agrees
  with the exact one unless the quotient lies within one rounding step of 15/100,
  which needs more than \<open>10 ^ 15\<close> frames; the exact comparison is the model.
\<close>

definition voice_decision :: "nat \<Rightarrow> nat \<Rightarrow> bool" where
  "voice_decision voiced_count frame_count =
     (if frame_count = 0 then False else 0.15 \<le> real voiced_count / real frame_count)"

definition contains_voice ::
  "('a \<Rightarrow> 'b) \<Rightarrow> ('b list \<Rightarrow> nat \<Rightarrow> bool option) \<Rightarrow> 'a AudioCapture \<Rightarrow> 'a list \<Rightarrow> int \<Rightarrow>
   (exn + bool) \<times> 'a AudioCapture" where
  "contains_voice quantize is_speech ac audio frame_samples =
     (case vad_loop quantize is_speech ac audio frame_samples of
        None \<Rightarrow> (Inl (Exception ''range() arg 3 must not be zero''), ac)
      | Some (voiced_count, frame_count, ac') \<Rightarrow>
          (Inr (voice_decision voiced_count frame_count), ac'))"

subsection \<open>The frames of a chunk, as the specification describes them\<close>

text \<open>
  The specification partitions a chunk into non-overlapping frames of \<open>fs\<close> samples:
  frame \<open>k\<close> holds the samples from \<open>k * fs\<close> up to \<open>(k + 1) * fs\<close>, and a chunk has
  as many full frames as \<open>fs\<close> fits into its length.
\<close>

definition frame_of :: "'b list \<Rightarrow> nat \<Rightarrow> nat \<Rightarrow> 'b list" where
  "frame_of xs fs k = take fs (drop (k * fs) xs)"

definition full_frames :: "'b list \<Rightarrow> nat \<Rightarrow> 'b list list" where
  "full_frames xs fs = map (frame_of xs fs) [0 ..< length xs div fs]"

text \<open>
  The chunk decision in the words of the specification, for comparison with
  \<open>contains_voice\<close>: every frame is classified, a frame on which the classifier fails
  counts as not voiced, and the chunk is accepted when the voiced frames are at least
  15 percent of all frames.
\<close>

definition chunkIsVoiced_spec ::
  "('a \<Rightarrow> 'b) \<Rightarrow> ('b list \<Rightarrow> nat \<Rightarrow> bool option) \<Rightarrow> nat \<Rightarrow> 'a list \<Rightarrow> nat \<Rightarrow> bool" where
  "chunkIsVoiced_spec quantize is_speech rate audio fs =
     (let verdicts = map (\<lambda>f. is_speech f rate) (full_frames (map quantize audio) fs);
          voiced = length (filter (\<lambda>v. v = Some True) verdicts)
      in verdicts \<noteq> [] \<and> 0.15 \<le> real voiced / real (length verdicts))"

section \<open>Text insertion (\<^verbatim>\<open>text_injector.py\<close>)\<close>

datatype InsertionMethod = DIRECT | AUTO_PASTE | CLIPBOARD

fun InsertionMethod_value :: "InsertionMethod \<Rightarrow> string" where
  "InsertionMethod_value DIRECT = ''direct''"
| "InsertionMethod_value AUTO_PASTE = ''auto_paste''"
| "InsertionMethod_value CLIPBOARD = ''clipboard''"

record TextInjector =
  preferred_method :: string
  ydotool_available :: bool
  last_method_used :: "InsertionMethod option"

text \<open>
  What \<^verbatim>\<open>subprocess.run(..., check=True, timeout=...)\<close> does. The handler of
  \<^verbatim>\<open>CalledProcessError\<close> formats its log line with \<^verbatim>\<open>e.stderr.decode()\<close>, which can raise
  in its turn; the argument of \<open>CalledProcessError\<close> is that second exception, if any.
\<close>

datatype run_result = Completed | TimeoutExpired | CalledProcessError "exn option" | RunRaises exn

text \<open>
  The outcomes of the external calls made on behalf of each method: the exception of
  \<^verbatim>\<open>pyperclip.copy\<close> (if any) and the result of the \<^verbatim>\<open>ydotool\<close> process.
\<close>

record injector_env =
  copy_raises :: "InsertionMethod \<Rightarrow> exn option"
  run_outcome :: "InsertionMethod \<Rightarrow> run_result"

text \<open>The external calls attempted, in order: the trace of the desktop.\<close>

datatype os_call = Copy string | Run "string list"

text \<open>
  The common shape of \<^verbatim>\<open>_insert_direct\<close> and \<^verbatim>\<open>_insert_auto_paste\<close>: return \<^verbatim>\<open>False\<close>
  at once without ydotool; otherwise copy, run the command, and turn every exception
  into \<^verbatim>\<open>False\<close>.
\<close>

definition insert_with_ydotool ::
  "injector_env \<Rightarrow> InsertionMethod \<Rightarrow> string list \<Rightarrow> TextInjector \<Rightarrow> string \<Rightarrow> os_call list \<Rightarrow>
   (exn + bool) \<times> os_call list" where
  "insert_with_ydotool env m command ti content calls =
     (if \<not> ydotool_available ti then (Inr False, calls)
      else
        (case copy_raises env m of
           Some e \<Rightarrow> (Inr False, calls @ [Copy content])
         | None \<Rightarrow>
             (case run_outcome env m of
                Completed \<Rightarrow> (Inr True, calls @ [Copy content, Run command])
              | TimeoutExpired \<Rightarrow> (Inr False, calls @ [Copy content, Run command])
              | CalledProcessError None \<Rightarrow> (Inr False, calls @ [Copy content, Run command])
              | CalledProcessError (Some e) \<Rightarrow> (Inl e, calls @ [Copy content, Run command])
              | RunRaises e \<Rightarrow> (Inr False, calls @ [Copy content, Run command]))))"

definition insert_direct ::
  "injector_env \<Rightarrow> TextInjector \<Rightarrow> string \<Rightarrow> os_call list \<Rightarrow> (exn + bool) \<times> os_call list" where
  "insert_direct env ti content calls =
     insert_with_ydotool env DIRECT [''ydotool'', ''type'', content] ti content calls"

definition insert_auto_paste ::
  "injector_env \<Rightarrow> TextInjector \<Rightarrow> string \<Rightarrow> os_call list \<Rightarrow> (exn + bool) \<times> os_call list" where
  "insert_auto_paste env ti content calls =
     insert_with_ydotool env AUTO_PASTE
       [''ydotool'', ''key'', ''29:1'', ''47:1'', ''47:0'', ''29:0''] ti content calls"

definition insert_clipboard ::
  "injector_env \<Rightarrow> TextInjector \<Rightarrow> string \<Rightarrow> os_call list \<Rightarrow> (exn + bool) \<times> os_call list" where
  "insert_clipboard env ti content calls =
     (case copy_raises env CLIPBOARD of
        Some e \<Rightarrow> (Inr False, calls @ [Copy content])
      | None \<Rightarrow> (Inr True, calls @ [Copy content]))"

text \<open>The candidate list that \<^verbatim>\<open>insert_text\<close> builds from \<^verbatim>\<open>preferred_method\<close>.\<close>

definition candidate_methods :: "string \<Rightarrow> InsertionMethod list" where
  "candidate_methods preferred =
     (if preferred = ''auto'' then [AUTO_PASTE, DIRECT, CLIPBOARD]
      else if preferred = ''direct'' then [DIRECT, AUTO_PASTE, CLIPBOARD]
      else if preferred = ''auto_paste'' then [AUTO_PASTE, CLIPBOARD]
      else [CLIPBOARD])"

fun attempt ::
  "injector_env \<Rightarrow> TextInjector \<Rightarrow> string \<Rightarrow> InsertionMethod \<Rightarrow> os_call list \<Rightarrow>
   (exn + bool) \<times> os_call list" where
  "attempt env ti content DIRECT calls = insert_direct env ti content calls"
| "attempt env ti content AUTO_PASTE calls = insert_auto_paste env ti content calls"
| "attempt env ti content CLIPBOARD calls = insert_clipboard env ti content calls"

text \<open>
  The loop \<^verbatim>\<open>for method in methods\<close> with its \<^verbatim>\<open>try\<close>: a method that returns \<^verbatim>\<open>True\<close>
  ends the loop, one that returns \<^verbatim>\<open>False\<close> is passed over, and an exception that
  escapes a method is kept in \<^verbatim>\<open>last_error\<close>. After the loop the aggregated exception
  is raised.
\<close>

fun try_methods ::
  "injector_env \<Rightarrow> string \<Rightarrow> InsertionMethod list \<Rightarrow> exn option \<Rightarrow> TextInjector \<Rightarrow> os_call list \<Rightarrow>
   (exn + InsertionMethod) \<times> TextInjector \<times> os_call list" where
  "try_methods env content [] last_error ti calls =
     (Inl (Exception (''All text insertion methods failed. Last error: '' @ str_opt_exn last_error)),
      ti, calls)"
| "try_methods env content (m # ms) last_error ti calls =
     (case attempt env ti content m calls of
        (Inr ok, calls') \<Rightarrow>
          if ok then (Inr m, ti\<lparr> last_method_used := Some m \<rparr>, calls')
          else try_methods env content ms last_error ti calls'
      | (Inl e, calls') \<Rightarrow> try_methods env content ms (Some e) ti calls')"

definition insert_text ::
  "injector_env \<Rightarrow> string \<Rightarrow> TextInjector \<Rightarrow> os_call list \<Rightarrow>
   (exn + InsertionMethod) \<times> TextInjector \<times> os_call list" where
  "insert_text env content ti calls =
     (if content = [] then (Inr CLIPBOARD, ti, calls)
      else try_methods env content (candidate_methods (preferred_method ti)) None ti calls)"

section \<open>Command transport (\<^verbatim>\<open>ipc_server.py\<close>)\<close>

text \<open>
  A decoded JSON value. The values that can be dictionary keys are kept apart, since
  the server looks the command up in a dictionary; a float is kept as the text that
  \<^verbatim>\<open>str\<close> prints for it. A JSON object is a list with one entry per key.
\<close>

datatype atom = ANone | ABool bool | AInt int | AFloat string | AStr string

datatype json = Atom atom | JList "json list" | JDict "(string \<times> json) list"

fun str_atom :: "atom \<Rightarrow> string" where
  "str_atom ANone = ''None''"
| "str_atom (ABool b) = (if b then ''True'' else ''False'')"
| "str_atom (AInt i) = str_int i"
| "str_atom (AFloat x) = x"
| "str_atom (AStr s) = s"

text \<open>\<^verbatim>\<open>type(v).__name__\<close> of a decoded value.\<close>

fun type_name :: "json \<Rightarrow> string" where
  "type_name (Atom ANone) = ''NoneType''"
| "type_name (Atom (ABool b)) = ''bool''"
| "type_name (Atom (AInt i)) = ''int''"
| "type_name (Atom (AFloat x)) = ''float''"
| "type_name (Atom (AStr s)) = ''str''"
| "type_name (JList xs) = ''list''"
| "type_name (JDict d) = ''dict''"

text \<open>\<^verbatim>\<open>d.get(key, fallback)\<close>.\<close>

definition dict_get :: "(string \<times> json) list \<Rightarrow> string \<Rightarrow> json \<Rightarrow> json" where
  "dict_get d k fallback = (case map_of d k of None \<Rightarrow> fallback | Some v \<Rightarrow> v)"

text \<open>
  The two responses: \<^verbatim>\<open>{"status": "success", "result": r}\<close> and
  \<^verbatim>\<open>{"status": "error", "message": m}\<close>.
\<close>

datatype response = SuccessResponse json | ErrorResponse string

text \<open>
  What \<^verbatim>\<open>client_socket.recv(4096).decode("utf-8")\<close> gives: an exception (of the socket or
  of the decoder) or the text.
\<close>

datatype received = Raises exn | Text string

text \<open>
  A registered handler is a callable: the name under which CPython prints it in an
  error message of the call, and what it does, which is to take the keyword arguments
  and the state of the program behind it and to return a result or raise.
\<close>

type_synonym 's handler =
  "string \<times> ((string \<times> json) list \<Rightarrow> 's \<Rightarrow> (exn + json) \<times> 's)"

text \<open>
  What one connection leaves behind: the responses written to the socket, whether the
  socket was closed, the names of the handlers invoked, and the program state.
\<close>

record 's connection =
  sent :: "response list"
  closed :: bool
  invoked :: "string list"
  program :: 's

text \<open>
  \<^verbatim>\<open>client_socket.sendall(json.dumps(response).encode("utf-8"))\<close> followed by the
  \<^verbatim>\<open>finally\<close> clause; \<open>send_raises\<close> is the exception of \<^verbatim>\<open>sendall\<close>, if any, which the
  outer handler catches.
\<close>

definition respond :: "exn option \<Rightarrow> response \<Rightarrow> string list \<Rightarrow> 's \<Rightarrow> 's connection" where
  "respond send_raises r names w =
     \<lparr> sent = (case send_raises of None \<Rightarrow> [r] | Some e \<Rightarrow> []),
       closed = True, invoked = names, program = w \<rparr>"

text \<open>The outer \<^verbatim>\<open>except Exception\<close>: the error is logged and nothing is written.\<close>

definition dropped :: "'s \<Rightarrow> 's connection" where
  "dropped w = \<lparr> sent = [], closed = True, invoked = [], program = w \<rparr>"

text \<open>
  The call of the handler with \<^verbatim>\<open>args\<close> unpacked into keyword arguments. A value that
  is not a mapping raises \<^verbatim>\<open>TypeError\<close> before the handler runs; its message names
  the callee and the type of the value, and the inner \<^verbatim>\<open>except\<close> turns it into an error
  response like any exception of the handler.
\<close>

definition call_handler ::
  "exn option \<Rightarrow> string \<Rightarrow> 's handler \<Rightarrow> json \<Rightarrow> 's \<Rightarrow> 's connection" where
  "call_handler send_raises name h args w =
     (case args of
        JDict kwargs \<Rightarrow>
          (case snd h kwargs w of
             (Inr result, w') \<Rightarrow> respond send_raises (SuccessResponse result) [name] w'
           | (Inl e, w') \<Rightarrow> respond send_raises (ErrorResponse (str_exn e)) [name] w')
      | _ \<Rightarrow>
          respond send_raises
            (ErrorResponse
               (fst h @ ''() argument after ** must be a mapping, not '' @ type_name args))
            [] w)"

text \<open>
  \<^verbatim>\<open>IPCServer._handle_client\<close>. \<open>json_loads\<close> is \<^verbatim>\<open>json.loads\<close>, with \<open>None\<close> for
  \<^verbatim>\<open>JSONDecodeError\<close>. A decoded value that is not an object has no \<^verbatim>\<open>get\<close>
  (\<^verbatim>\<open>AttributeError\<close>), and a command that is a list or an object cannot be looked up
  in the handler dictionary (\<^verbatim>\<open>TypeError\<close>); neither is a \<^verbatim>\<open>JSONDecodeError\<close>, so both
  reach the outer handler.
\<close>

definition handle_client ::
  "(string \<Rightarrow> json option) \<Rightarrow> (string \<rightharpoonup> 's handler) \<Rightarrow> exn option \<Rightarrow> received \<Rightarrow> 's \<Rightarrow>
   's connection" where
  "handle_client json_loads command_handlers send_raises rcv w =
     (case rcv of
        Raises e \<Rightarrow> dropped w
      | Text data \<Rightarrow>
          if data = [] then dropped w
          else
            (case json_loads data of
               None \<Rightarrow> respond send_raises (ErrorResponse ''Invalid JSON'') [] w
             | Some (JDict message) \<Rightarrow>
                 (case dict_get message ''command'' (Atom ANone) of
                    Atom (AStr c) \<Rightarrow>
                      (case command_handlers c of
                         Some h \<Rightarrow>
                           call_handler send_raises c h (dict_get message ''args'' (JDict [])) w
                       | None \<Rightarrow>
                           respond send_raises (ErrorResponse (''Unknown command: '' @ c)) [] w)
                  | Atom a \<Rightarrow>
                      respond send_raises (ErrorResponse (''Unknown command: '' @ str_atom a)) [] w
                  | _ \<Rightarrow> dropped w)
             | Some _ \<Rightarrow> dropped w))"

section \<open>Transcription (\<^verbatim>\<open>transcriber.py\<close>)\<close>

text \<open>
  \<^verbatim>\<open>Transcriber.transcribe_full_audio\<close>. \<open>engine_result\<close> is what the speech engine
  does with the audio: it raises, or yields the texts of the segments.
\<close>

definition transcribe_full_audio :: "bool \<Rightarrow> exn + string list \<Rightarrow> exn + string" where
  "transcribe_full_audio loaded engine_result =
     (if \<not> loaded then Inl (Exception ''Model not loaded'')
      else
        (case engine_result of
           Inl e \<Rightarrow> Inr []
         | Inr parts \<Rightarrow> Inr (py_strip (join_space parts))))"

section \<open>The session orchestrator (\<^verbatim>\<open>daemon.py\<close>)\<close>

datatype SessionState = IDLE | RECORDING | PROCESSING

fun SessionState_value :: "SessionState \<Rightarrow> string" where
  "SessionState_value IDLE = ''idle''"
| "SessionState_value RECORDING = ''recording''"
| "SessionState_value PROCESSING = ''processing''"

text \<open>
  What the daemon asks of its collaborators, in order: the two window signals, the
  reset of the transcriber, a transcription of a buffer, an insertion of a text.
\<close>

datatype 'a event =
  ShowWindow | HideWindow | ResetTranscription | Transcribe "'a buffered list" | InsertText string

text \<open>
  The daemon: the session fields, the components it owns, whether the speech model is
  loaded, whether a window exists, the trace of collaborator calls, the trace of the
  desktop, and whether process termination has been scheduled.
\<close>

record 'a WhisperDaemon =
  state :: SessionState
  session_start_time :: real
  sessions_count :: nat
  audio_capture :: "'a AudioCapture"
  text_injector :: TextInjector
  model_loaded :: bool
  gui_window :: bool
  events :: "'a event list"
  desktop :: "os_call list"
  shutdown_scheduled :: bool

text \<open>
  \<^verbatim>\<open>WhisperDaemon.__init__\<close> and \<^verbatim>\<open>initialize\<close>: the session is idle, no chunk callback
  is registered with the capture (batch mode), the waveform callback is.
\<close>

definition WhisperDaemon_init :: "nat \<Rightarrow> nat \<Rightarrow> string \<Rightarrow> bool \<Rightarrow> bool \<Rightarrow> 'a WhisperDaemon" where
  "WhisperDaemon_init rate chans preferred ydotool window =
     \<lparr> state = IDLE, session_start_time = 0, sessions_count = 0,
       audio_capture = AudioCapture_init rate chans False True,
       text_injector = \<lparr> preferred_method = preferred, ydotool_available = ydotool,
                         last_method_used = None \<rparr>,
       model_loaded = True, gui_window = window, events = [], desktop = [],
       shutdown_scheduled = False \<rparr>"

text \<open>
  The outcomes, during one command, of everything outside the repository: the clock
  read by the capture and by the handler, the audio stream, the speech engine, and the
  desktop.
\<close>

record 'a daemon_env =
  clock_capture :: real
  clock_session :: real
  stream_opening :: open_result
  stream_closing :: "exn option"
  engine :: "'a buffered list \<Rightarrow> exn + string list"
  injector :: injector_env

text \<open>The dictionaries the handlers return.\<close>

datatype reply =
    Failure (message: string)
  | Started (message: string) (session_id: string) (start_time_of: real)
  | Stopped (message: string) (transcription: string) (duration: real)
            (insertion_method: string) (word_count: nat)
  | StatusReply (is_recording: bool) (state_name: string) (sessions: nat)
  | Acknowledged (message: string)

fun success :: "reply \<Rightarrow> bool" where
  "success (Failure m) = False"
| "success _ = True"

definition emit :: "'a event \<Rightarrow> 'a WhisperDaemon \<Rightarrow> 'a WhisperDaemon" where
  "emit ev d = (if gui_window d then d\<lparr> events := events d @ [ev] \<rparr> else d)"

text \<open>\<^verbatim>\<open>WhisperDaemon._handle_start_command\<close>.\<close>

definition handle_start_command ::
  "'a daemon_env \<Rightarrow> 'a WhisperDaemon \<Rightarrow> reply \<times> 'a WhisperDaemon" where
  "handle_start_command env d =
     (if state d \<noteq> IDLE
      then (Failure (''Cannot start: already '' @ SessionState_value (state d)), d)
      else
        let d1 = d\<lparr> events := events d @ [ResetTranscription] \<rparr>
        in case AudioCapture_start (clock_capture env) (stream_opening env) (audio_capture d1) of
             (Some e, ac) \<Rightarrow>
               (Failure (''Failed to start recording: '' @ str_exn e),
                d1\<lparr> audio_capture := ac, state := IDLE \<rparr>)
           | (None, ac) \<Rightarrow>
               let d2 = d1\<lparr> audio_capture := ac, state := RECORDING,
                             session_start_time := clock_session env,
                             sessions_count := sessions_count d1 + 1 \<rparr>;
                   d3 = emit ShowWindow d2
               in (Started ''Recording started''
                     (''session_'' @ str_nat (sessions_count d3)) (session_start_time d3),
                   d3))"

text \<open>The \<^verbatim>\<open>except\<close> clause of \<^verbatim>\<open>_handle_stop_command\<close>.\<close>

definition stop_failed :: "exn \<Rightarrow> 'a WhisperDaemon \<Rightarrow> reply \<times> 'a WhisperDaemon" where
  "stop_failed e d = (Failure (''Failed to stop recording: '' @ str_exn e), d\<lparr> state := IDLE \<rparr>)"

text \<open>
  The insertion step of \<^verbatim>\<open>_handle_stop_command\<close>: the chain is called for a text that
  is not blank, and an exception of the chain degrades the method to \<^verbatim>\<open>CLIPBOARD\<close>.
\<close>

definition insert_transcription ::
  "'a daemon_env \<Rightarrow> string \<Rightarrow> 'a WhisperDaemon \<Rightarrow> InsertionMethod option \<times> 'a WhisperDaemon" where
  "insert_transcription env content d =
     (if content \<noteq> [] \<and> py_strip content \<noteq> [] then
        (case insert_text (injector env) content (text_injector d) (desktop d) of
           (r, ti, calls) \<Rightarrow>
             (Some (case r of Inr m \<Rightarrow> m | Inl e \<Rightarrow> CLIPBOARD),
              d\<lparr> text_injector := ti, desktop := calls,
                  events := events d @ [InsertText content] \<rparr>))
      else (None, d))"

text \<open>\<^verbatim>\<open>WhisperDaemon._handle_stop_command\<close>.\<close>

definition handle_stop_command ::
  "'a daemon_env \<Rightarrow> 'a WhisperDaemon \<Rightarrow> reply \<times> 'a WhisperDaemon" where
  "handle_stop_command env d =
     (if state d \<noteq> RECORDING then (Failure ''No recording in progress'', d)
      else
        let d1 = (emit HideWindow d)\<lparr> state := PROCESSING \<rparr>
        in case AudioCapture_stop (stream_closing env) (audio_capture d1) of
             (Inl e, ac) \<Rightarrow> stop_failed e (d1\<lparr> audio_capture := ac \<rparr>)
           | (Inr all_audio, ac) \<Rightarrow>
               let d2 = d1\<lparr> audio_capture := ac \<rparr>;
                   (outcome, d3) =
                     (if 8000 < length all_audio
                      then (transcribe_full_audio (model_loaded d2) (engine env all_audio),
                            d2\<lparr> events := events d2 @ [Transcribe all_audio] \<rparr>)
                      else (Inr [], d2))
               in (case outcome of
                     Inl e \<Rightarrow> stop_failed e d3
                   | Inr text_out \<Rightarrow>
                       let duration = clock_session env - session_start_time d3;
                           (used, d4) = insert_transcription env text_out d3;
                           d5 = d4\<lparr> state := IDLE \<rparr>
                       in (Stopped ''Recording stopped'' text_out duration
                             (case used of Some m \<Rightarrow> InsertionMethod_value m | None \<Rightarrow> ''none'')
                             (if text_out \<noteq> [] then length (py_split text_out) else 0),
                           d5)))"

text \<open>\<^verbatim>\<open>WhisperDaemon._handle_gui_stop_request\<close>.\<close>

definition handle_gui_stop_request :: "'a daemon_env \<Rightarrow> 'a WhisperDaemon \<Rightarrow> 'a WhisperDaemon" where
  "handle_gui_stop_request env d =
     (case handle_stop_command env d of
        (r, d') \<Rightarrow> if success r then emit HideWindow d' else d')"

text \<open>
  \<^verbatim>\<open>WhisperDaemon._handle_status_command\<close>, with the fields of the snapshot that come
  from the session itself.
\<close>

definition handle_status_command :: "'a WhisperDaemon \<Rightarrow> reply \<times> 'a WhisperDaemon" where
  "handle_status_command d =
     (StatusReply (state d = RECORDING) (SessionState_value (state d)) (sessions_count d), d)"

text \<open>\<^verbatim>\<open>WhisperDaemon._handle_shutdown_command\<close>: the timer is started, not waited for.\<close>

definition handle_shutdown_command ::
  "'a daemon_env \<Rightarrow> 'a WhisperDaemon \<Rightarrow> reply \<times> 'a WhisperDaemon" where
  "handle_shutdown_command env d =
     (let d1 = (if state d = RECORDING then snd (handle_stop_command env d) else d)
      in (Acknowledged ''Daemon shutting down'', d1\<lparr> shutdown_scheduled := True \<rparr>))"

text \<open>
  What can happen to the daemon from outside: one of the four commands, the stop
  request of the window, or a block of audio from the driver.
\<close>

datatype 'a input =
  Start | Stop | Status | Shutdown | GuiStop | Audio "('a \<times> 'a list) list"

fun step :: "'a daemon_env \<Rightarrow> 'a input \<Rightarrow> 'a WhisperDaemon \<Rightarrow> 'a WhisperDaemon" where
  "step env Start d = snd (handle_start_command env d)"
| "step env Stop d = snd (handle_stop_command env d)"
| "step env Status d = snd (handle_status_command d)"
| "step env Shutdown d = snd (handle_shutdown_command env d)"
| "step env GuiStop d = handle_gui_stop_request env d"
| "step env (Audio block) d = d\<lparr> audio_capture := audio_callback block (audio_capture d) \<rparr>"

text \<open>A run: inputs handled one after the other, each with its own environment.\<close>

fun run :: "('a input \<times> 'a daemon_env) list \<Rightarrow> 'a WhisperDaemon \<Rightarrow> 'a WhisperDaemon" where
  "run [] d = d"
| "run ((i, env) # rest) d = run rest (step env i d)"

text \<open>An environment in which nothing fails and the engine hears the given words.\<close>

definition calm_env :: "string list \<Rightarrow> 'a daemon_env" where
  "calm_env heard =
     \<lparr> clock_capture = 100, clock_session = 101, stream_opening = OpenOk,
       stream_closing = None, engine = (\<lambda>audio. Inr heard),
       injector = \<lparr> copy_raises = (\<lambda>m. None), run_outcome = (\<lambda>m. Completed) \<rparr> \<rparr>"

chapter \<open>Properties\<close>

section \<open>The voice gate\<close>

lemma vad_frame_step:
  "vad_frame cls a16 fs (v, f, ac) i =
     (case cls (take (nat fs) (drop (nat i) a16)) (sample_rate ac) of
        None \<Rightarrow> (v, f, ac)
      | Some b \<Rightarrow> (if b then v + 1 else v, f + 1,
                   ac\<lparr> total_frames := total_frames ac + 1,
                       voiced_frames := (if b then voiced_frames ac + 1 else voiced_frames ac) \<rparr>))"
  by (simp add: vad_frame_def Let_def split: option.splits)

text \<open>
  The loop in closed form: the local counts and the lifetime counters grow by the
  number of offsets whose frame was classified, respectively classified as speech.
\<close>

lemma vad_fold_counts:
  "foldl (vad_frame cls a16 fs) (v, f, ac) offs =
     (v + length (filter (\<lambda>i. cls (take (nat fs) (drop (nat i) a16)) (sample_rate ac) = Some True) offs),
      f + length (filter (\<lambda>i. cls (take (nat fs) (drop (nat i) a16)) (sample_rate ac) \<noteq> None) offs),
      ac\<lparr> total_frames := total_frames ac + length (filter (\<lambda>i. cls (take (nat fs) (drop (nat i) a16)) (sample_rate ac) \<noteq> None) offs),
          voiced_frames := voiced_frames ac + length (filter (\<lambda>i. cls (take (nat fs) (drop (nat i) a16)) (sample_rate ac) = Some True) offs) \<rparr>)"
proof (induction offs arbitrary: v f ac)
  case Nil
  show ?case by simp
next
  case (Cons i offs)
  show ?case
  proof (cases "cls (take (nat fs) (drop (nat i) a16)) (sample_rate ac)")
    case None
    then show ?thesis by (simp add: vad_frame_step Cons.IH)
  next
    case (Some b)
    then show ?thesis by (cases b) (auto simp add: vad_frame_step Cons.IH)
  qed
qed

text \<open>The number of offsets in \<^verbatim>\<open>range(0, n - fs, fs)\<close>.\<close>

lemma frame_count_general:
  fixes fs n :: nat
  assumes "0 < fs"
  shows "nat ((int n - int fs + int fs - 1) div int fs) = (n - 1) div fs"
proof (cases n)
  case 0
  have "(- 1) div int fs < 0" using assms by (intro div_neg_pos_less0) simp_all
  with 0 show ?thesis by simp
next
  case (Suc k)
  have "(int n - int fs + int fs - 1) = int k" using Suc by simp
  then show ?thesis using Suc by (simp add: zdiv_int [symmetric])
qed

lemma frame_count_arith:
  fixes fs n :: nat
  assumes "0 < fs" "n < fs \<or> \<not> fs dvd n"
  shows "(n - 1) div fs = n div fs"
proof (cases "n < fs")
  case True
  then show ?thesis by simp
next
  case False
  with assms have nd: "\<not> fs dvd n" by simp
  then have r: "0 < n mod fs" by (simp add: dvd_eq_mod_eq_0)
  have "n = n mod fs + (n div fs) * fs" by simp
  with r have "n - 1 = (n mod fs - 1) + (n div fs) * fs" by linarith
  then have "(n - 1) div fs = ((n mod fs - 1) + (n div fs) * fs) div fs" by simp
  also have "\<dots> = n div fs + (n mod fs - 1) div fs" using assms(1) by simp
  also have "(n mod fs - 1) div fs = 0"
    using assms(1) by (simp add: less_imp_diff_less)
  finally show ?thesis by simp
qed

text \<open>
  What the loop computes for a positive frame size: it visits the frames
  \<open>0, \<dots>, (n - 1) div fs - 1\<close> of a chunk of \<open>n\<close> samples.
\<close>

lemma vad_loop_frames:
  assumes "0 < fs"
  shows "vad_loop q cls ac audio (int fs) =
     Some (length (filter (\<lambda>k. cls (take fs (drop (k * fs) (map q audio))) (sample_rate ac) = Some True) [0 ..< (length audio - 1) div fs]),
           length (filter (\<lambda>k. cls (take fs (drop (k * fs) (map q audio))) (sample_rate ac) \<noteq> None) [0 ..< (length audio - 1) div fs]),
           ac\<lparr> total_frames := total_frames ac + length (filter (\<lambda>k. cls (take fs (drop (k * fs) (map q audio))) (sample_rate ac) \<noteq> None) [0 ..< (length audio - 1) div fs]),
               voiced_frames := voiced_frames ac + length (filter (\<lambda>k. cls (take fs (drop (k * fs) (map q audio))) (sample_rate ac) = Some True) [0 ..< (length audio - 1) div fs]) \<rparr>)"
proof -
  have m: "nat ((int (length audio) - int fs + int fs - 1) div int fs) = (length audio - 1) div fs"
    using assms by (rule frame_count_general)
  have r: "py_range 0 (int (length (map q audio)) - int fs) (int fs) =
        Some (map (\<lambda>k. int k * int fs) [0 ..< (length audio - 1) div fs])"
    using assms m by (simp add: py_range_def)
  show ?thesis
    unfolding vad_loop_def Let_def r option.case vad_fold_counts
    by (simp add: filter_map o_def nat_mult_distrib)
qed

lemma frames_concat:
  "m * fs \<le> length xs \<Longrightarrow> concat (map (frame_of xs fs) [0 ..< m]) = take (m * fs) xs"
proof (induction m)
  case 0 show ?case by simp
next
  case (Suc m)
  have "take (m * fs + fs) xs = take (m * fs) xs @ take fs (drop (m * fs) xs)"
    by (rule take_add)
  with Suc show ?case by (simp add: add.commute frame_of_def)
qed

lemma full_frames_length:
  assumes "f \<in> set (full_frames xs fs)" shows "length f = fs"
proof -
  from assms obtain k where k: "k < length xs div fs" and f: "f = frame_of xs fs k"
    by (auto simp: full_frames_def)
  from k have "Suc k * fs \<le> (length xs div fs) * fs"
    by (intro mult_le_mono1) simp
  also have "\<dots> \<le> length xs" by simp
  finally have "Suc k * fs \<le> length xs" .
  then show ?thesis by (simp add: f frame_of_def)
qed

text \<open>
  Claim C5, as amended. For a chunk that is shorter than one frame or whose length is
  not a multiple of the frame size, the gate classifies exactly the full frames of
  the chunk, which are non-overlapping and consecutive. A frame on which the
  classifier fails is skipped: it is counted neither as voiced nor among the
  classified frames, and the loop goes on. The chunk is accepted when at least one
  frame was classified and the voiced frames are at least 15 percent of the classified
  ones; the lifetime counters grow by the same two counts. A chunk shorter than one
  frame, and a chunk none of whose frames could be classified, is rejected.
\<close>

theorem contains_voice_frames:
  assumes "0 < fs" and "length audio < fs \<or> \<not> fs dvd length audio"
  shows "let frames = full_frames (map quantize audio) fs;
             verdicts = map (\<lambda>f. is_speech f (sample_rate ac)) frames;
             classified = length (filter (\<lambda>v. v \<noteq> None) verdicts);
             voiced = length (filter (\<lambda>v. v = Some True) verdicts)
         in concat frames = take (length audio div fs * fs) (map quantize audio)
          \<and> (\<forall>f \<in> set frames. length f = fs)
          \<and> contains_voice quantize is_speech ac audio (int fs) =
              (Inr (classified \<noteq> 0 \<and> 0.15 \<le> real voiced / real classified),
               ac\<lparr> total_frames := total_frames ac + classified,
                   voiced_frames := voiced_frames ac + voiced \<rparr>)
          \<and> (length audio < fs \<longrightarrow> fst (contains_voice quantize is_speech ac audio (int fs)) = Inr False)
          \<and> (classified = 0 \<longrightarrow> fst (contains_voice quantize is_speech ac audio (int fs)) = Inr False)"
proof -
  have m: "(length audio - 1) div fs = length audio div fs"
    using assms by (rule frame_count_arith)
  have cv: "contains_voice quantize is_speech ac audio (int fs) =
      (Inr (length (filter (\<lambda>v. v \<noteq> None) (map (\<lambda>f. is_speech f (sample_rate ac)) (full_frames (map quantize audio) fs))) \<noteq> 0
            \<and> 0.15 \<le> real (length (filter (\<lambda>v. v = Some True) (map (\<lambda>f. is_speech f (sample_rate ac)) (full_frames (map quantize audio) fs))))
                     / real (length (filter (\<lambda>v. v \<noteq> None) (map (\<lambda>f. is_speech f (sample_rate ac)) (full_frames (map quantize audio) fs))))),
       ac\<lparr> total_frames := total_frames ac + length (filter (\<lambda>v. v \<noteq> None) (map (\<lambda>f. is_speech f (sample_rate ac)) (full_frames (map quantize audio) fs))),
           voiced_frames := voiced_frames ac + length (filter (\<lambda>v. v = Some True) (map (\<lambda>f. is_speech f (sample_rate ac)) (full_frames (map quantize audio) fs))) \<rparr>)"
    unfolding contains_voice_def vad_loop_frames [OF assms(1)] m
    by (simp add: voice_decision_def full_frames_def filter_map o_def frame_of_def)
  have c: "concat (full_frames (map quantize audio) fs) = take (length audio div fs * fs) (map quantize audio)"
    unfolding full_frames_def using frames_concat [of "length audio div fs" fs "map quantize audio"]
    by simp
  have l: "\<forall>f \<in> set (full_frames (map quantize audio) fs). length f = fs"
    using full_frames_length by blast
  have short: "length audio < fs \<Longrightarrow> full_frames (map quantize audio) fs = []"
    by (simp add: full_frames_def)
  show ?thesis
    unfolding Let_def using c l short by (simp add: cv)
qed

text \<open>A chunk of seven samples at three samples per frame, and one of two samples.\<close>

theorem contains_voice_frames_witness:
  "(0::nat) < 3 \<and> \<not> 3 dvd length [1, 1, 1, 2, 2, 2, 0 :: nat]
   \<and> contains_voice (\<lambda>x. x)
        (\<lambda>f r. if f = [1, 1, 1] then Some True else if f = [0, 0, 0] then Some False else None)
        (AudioCapture_init 16000 1 True False) [1, 1, 1, 2, 2, 2, 0 :: nat] 3
      = (Inr True, (AudioCapture_init 16000 1 True False)\<lparr> total_frames := 1, voiced_frames := 1 \<rparr>)
   \<and> length [1, 1 :: nat] < 3
   \<and> fst (contains_voice (\<lambda>x. x)
        (\<lambda>f r. if f = [1, 1, 1] then Some True else if f = [0, 0, 0] then Some False else None)
        (AudioCapture_init 16000 1 True False) [1, 1 :: nat] 3) = Inr False"
proof -
  have p: "(0::nat) < 3" by simp
  have n: "length [1, 1, 1, 2, 2, 2, 0 :: nat] = 7" by simp
  have a: "length [1, 1, 1, 2, 2, 2, 0 :: nat] < 3 \<or> \<not> 3 dvd length [1, 1, 1, 2, 2, 2, 0 :: nat]"
    unfolding n by simp
  have b: "length [1, 1 :: nat] < 3 \<or> \<not> 3 dvd length [1, 1 :: nat]"
    by simp
  note w1 = contains_voice_frames [OF p a, of "\<lambda>x. x"
      "\<lambda>f r. if f = [1, 1, 1] then Some True else if f = [0, 0, 0] then Some False else None"
      "AudioCapture_init 16000 1 True False"]
  note w2 = contains_voice_frames [OF p b, of "\<lambda>x. x"
      "\<lambda>f r. if f = [1, 1, 1] then Some True else if f = [0, 0, 0] then Some False else None"
      "AudioCapture_init 16000 1 True False"]
  from w1 have "contains_voice (\<lambda>x. x)
        (\<lambda>f r. if f = [1, 1, 1] then Some True else if f = [0, 0, 0] then Some False else None)
        (AudioCapture_init 16000 1 True False) [1, 1, 1, 2, 2, 2, 0 :: nat] 3
      = (Inr True, (AudioCapture_init 16000 1 True False)\<lparr> total_frames := 1, voiced_frames := 1 \<rparr>)"
    by (simp add: Let_def full_frames_def frame_of_def upt_rec AudioCapture_init_def ex_bool_eq)
  moreover from w2 have "fst (contains_voice (\<lambda>x. x)
        (\<lambda>f r. if f = [1, 1, 1] then Some True else if f = [0, 0, 0] then Some False else None)
        (AudioCapture_init 16000 1 True False) [1, 1 :: nat] 3) = Inr False"
    by (simp add: Let_def full_frames_def)
  ultimately show ?thesis using a by simp
qed

text \<open>
  Claim C5 as stated fails. Fifteen samples at two samples per frame make seven full
  frames; the classifier accepts the first and fails on the other six. The code
  counts one classified frame, so the ratio is 1/1 and the chunk is accepted; with
  every failure counted as a frame that is not voiced the ratio would be 1/7, below the
  threshold, and the chunk rejected.
\<close>

theorem contains_voice_failure_counterexample:
  "fst (contains_voice (\<lambda>x. x)
          (\<lambda>f r. if f = [1, 1] then Some True else if f = [0, 0] then None else Some False)
          (AudioCapture_init 16000 1 True False)
          [1, 1, 0, 0, 0, 0, 0, 0, 0, 0, 0, 0, 0, 0, 0 :: nat] 2) = Inr True
   \<and> total_frames (snd (contains_voice (\<lambda>x. x)
          (\<lambda>f r. if f = [1, 1] then Some True else if f = [0, 0] then None else Some False)
          (AudioCapture_init 16000 1 True False)
          [1, 1, 0, 0, 0, 0, 0, 0, 0, 0, 0, 0, 0, 0, 0 :: nat] 2)) = 1
   \<and> length (full_frames [1, 1, 0, 0, 0, 0, 0, 0, 0, 0, 0, 0, 0, 0, 0 :: nat] 2) = 7
   \<and> chunkIsVoiced_spec (\<lambda>x. x)
          (\<lambda>f r. if f = [1, 1] then Some True else if f = [0, 0] then None else Some False)
          16000 [1, 1, 0, 0, 0, 0, 0, 0, 0, 0, 0, 0, 0, 0, 0 :: nat] 2 = False"
proof -
  have "contains_voice (\<lambda>x. x)
          (\<lambda>f r. if f = [1, 1] then Some True else if f = [0, 0] then None else Some False)
          (AudioCapture_init 16000 1 True False)
          [1, 1, 0, 0, 0, 0, 0, 0, 0, 0, 0, 0, 0, 0, 0 :: nat] 2
        = (Inr True, (AudioCapture_init 16000 1 True False)\<lparr> total_frames := 1, voiced_frames := 1 \<rparr>)"
    by (simp add: contains_voice_def vad_loop_def py_range_def upt_rec vad_frame_step
          AudioCapture_init_def voice_decision_def)
  moreover have "length (full_frames [1, 1, 0, 0, 0, 0, 0, 0, 0, 0, 0, 0, 0, 0, 0 :: nat] 2) = 7"
    by (simp add: full_frames_def)
  moreover have "chunkIsVoiced_spec (\<lambda>x. x)
          (\<lambda>f r. if f = [1, 1] then Some True else if f = [0, 0] then None else Some False)
          16000 [1, 1, 0, 0, 0, 0, 0, 0, 0, 0, 0, 0, 0, 0, 0 :: nat] 2 = False"
    by (simp add: chunkIsVoiced_spec_def full_frames_def frame_of_def upt_rec)
  ultimately show ?thesis by simp
qed

text \<open>
  The range bound stops one frame early when the frame size divides the chunk length.
  Four samples at two samples per frame are two full frames, the second one voiced; only
  the first is classified, so the chunk is rejected with ratio 0/1, where both frames
  would give 1/2.
\<close>

lemma contains_voice_skips_last_frame:
  "contains_voice (\<lambda>x. x) (\<lambda>f r. Some (f = [1, 1]))
      (AudioCapture_init 16000 1 True False) [0, 0, 1, 1 :: nat] 2
    = (Inr False, (AudioCapture_init 16000 1 True False)\<lparr> total_frames := 1 \<rparr>)
   \<and> full_frames [0, 0, 1, 1 :: nat] 2 = [[0, 0], [1, 1]]"
  by (simp add: contains_voice_def vad_loop_def py_range_def upt_rec vad_frame_step
        AudioCapture_init_def voice_decision_def full_frames_def frame_of_def)

lemma contains_voice_counts:
  "vad_loop quantize is_speech ac audio frame_samples = Some (voiced_count, frame_count, ac1) \<Longrightarrow>
   contains_voice quantize is_speech ac audio frame_samples = (Inr (voice_decision voiced_count frame_count), ac1)"
  by (simp add: contains_voice_def)

lemma vad_loop_same_counts:
  assumes "sample_rate ac' = sample_rate ac"
  shows "map_option (\<lambda>r. (fst r, fst (snd r))) (vad_loop quantize is_speech ac' audio frame_samples) =
         map_option (\<lambda>r. (fst r, fst (snd r))) (vad_loop quantize is_speech ac audio frame_samples)"
  unfolding vad_loop_def Let_def vad_fold_counts
  by (simp add: assms split: option.splits)

lemma contains_voice_same_decision:
  assumes "sample_rate ac' = sample_rate ac"
  shows "fst (contains_voice quantize is_speech ac' audio frame_samples) =
         fst (contains_voice quantize is_speech ac audio frame_samples)"
proof -
  note e = vad_loop_same_counts [OF assms, of quantize is_speech audio frame_samples]
  show ?thesis
  proof (cases "vad_loop quantize is_speech ac audio frame_samples")
    case None
    with e have "vad_loop quantize is_speech ac' audio frame_samples = None" by simp
    with None show ?thesis by (simp add: contains_voice_def)
  next
    case (Some r)
    with e obtain r' where r': "vad_loop quantize is_speech ac' audio frame_samples = Some r'"
      and "fst r' = fst r" "fst (snd r') = fst (snd r)" by auto
    with Some show ?thesis
      by (cases r, cases r') (simp add: contains_voice_def)
  qed
qed

text \<open>
  The decision of the gate in terms of the full frames of the chunk, for a chunk that is
  shorter than one frame or whose length is not a multiple of the frame size.
\<close>

lemma contains_voice_full_frames:
  assumes "0 < fs" and "length audio < fs \<or> \<not> fs dvd length audio"
  shows "contains_voice quantize is_speech ac audio (int fs) =
      (Inr (length (filter (\<lambda>v. v \<noteq> None) (map (\<lambda>f. is_speech f (sample_rate ac)) (full_frames (map quantize audio) fs))) \<noteq> 0
            \<and> 0.15 \<le> real (length (filter (\<lambda>v. v = Some True) (map (\<lambda>f. is_speech f (sample_rate ac)) (full_frames (map quantize audio) fs))))
                     / real (length (filter (\<lambda>v. v \<noteq> None) (map (\<lambda>f. is_speech f (sample_rate ac)) (full_frames (map quantize audio) fs))))),
       ac\<lparr> total_frames := total_frames ac + length (filter (\<lambda>v. v \<noteq> None) (map (\<lambda>f. is_speech f (sample_rate ac)) (full_frames (map quantize audio) fs))),
           voiced_frames := voiced_frames ac + length (filter (\<lambda>v. v = Some True) (map (\<lambda>f. is_speech f (sample_rate ac)) (full_frames (map quantize audio) fs))) \<rparr>)"
proof -
  have m: "(length audio - 1) div fs = length audio div fs"
    using assms by (rule frame_count_arith)
  show ?thesis
    unfolding contains_voice_def vad_loop_frames [OF assms(1)] m
    by (simp add: voice_decision_def full_frames_def filter_map o_def frame_of_def)
qed

lemma filter_classified_all:
  assumes "None \<notin> set vs"
  shows "filter (\<lambda>v. v \<noteq> None) vs = vs"
proof (rule filter_True, rule ballI)
  fix x
  assume x: "x \<in> set vs"
  show "x \<noteq> None"
  proof
    assume "x = None"
    with x have "None \<in> set vs" by simp
    with assms show False by simp
  qed
qed

lemma filter_classified_total:
  "filter (\<lambda>v. v \<noteq> None) (map (\<lambda>f. Some (g f)) xs) = map (\<lambda>f. Some (g f)) xs"
  by (induction xs) simp_all

text \<open>
  Claim C6, as amended. Take a chunk that is shorter than one frame or whose length is
  not a multiple of the frame size, and let its ratio be the number of its full frames
  classified as speech over the number of its full frames that the classifier could
  classify. If at least one frame was classified, a ratio of exactly 0.15 is accepted
  and every ratio below 0.15 is rejected; if none was, the chunk is rejected. When the
  classifier fails on no frame, the ratio is the one over all full frames of the chunk,
  and the decision is the one the specification describes. The decision is the same
  whatever the lifetime counters \<^verbatim>\<open>total_frames\<close> and \<^verbatim>\<open>voiced_frames\<close> hold before
  the call (no hysteresis), and it is monotonic: a second chunk whose ratio is at least
  that of an accepted chunk is accepted.
\<close>

theorem gate_threshold:
  assumes "0 < fs"
    and "length audio < fs \<or> \<not> fs dvd length audio"
    and "length audio_b < fs \<or> \<not> fs dvd length audio_b"
  shows "let verdicts = map (\<lambda>f. is_speech f (sample_rate ac)) (full_frames (map quantize audio) fs);
             classified = length (filter (\<lambda>v. v \<noteq> None) verdicts);
             voiced = length (filter (\<lambda>v. v = Some True) verdicts);
             verdicts_b = map (\<lambda>f. is_speech f (sample_rate ac_b)) (full_frames (map quantize audio_b) fs);
             classified_b = length (filter (\<lambda>v. v \<noteq> None) verdicts_b);
             voiced_b = length (filter (\<lambda>v. v = Some True) verdicts_b);
             decision = fst (contains_voice quantize is_speech ac audio (int fs));
             decision_b = fst (contains_voice quantize is_speech ac_b audio_b (int fs))
         in (0 < classified \<and> real voiced / real classified = 0.15 \<longrightarrow> decision = Inr True)
          \<and> (0 < classified \<and> real voiced / real classified < 0.15 \<longrightarrow> decision = Inr False)
          \<and> (classified = 0 \<longrightarrow> decision = Inr False)
          \<and> (None \<notin> set verdicts \<longrightarrow>
                classified = length (full_frames (map quantize audio) fs)
                \<and> decision = Inr (chunkIsVoiced_spec quantize is_speech (sample_rate ac) audio fs))
          \<and> (\<forall>seen heard.
                fst (contains_voice quantize is_speech
                       (ac\<lparr> total_frames := seen, voiced_frames := heard \<rparr>) audio (int fs))
                = decision)
          \<and> (decision = Inr True \<and> 0 < classified_b
                \<and> real voiced / real classified \<le> real voiced_b / real classified_b
              \<longrightarrow> decision_b = Inr True)"
proof -
  define verdicts where "verdicts = map (\<lambda>f. is_speech f (sample_rate ac)) (full_frames (map quantize audio) fs)"
  define classified where "classified = length (filter (\<lambda>v. v \<noteq> None) verdicts)"
  define voiced where "voiced = length (filter (\<lambda>v. v = Some True) verdicts)"
  define verdicts_b where "verdicts_b = map (\<lambda>f. is_speech f (sample_rate ac_b)) (full_frames (map quantize audio_b) fs)"
  define classified_b where "classified_b = length (filter (\<lambda>v. v \<noteq> None) verdicts_b)"
  define voiced_b where "voiced_b = length (filter (\<lambda>v. v = Some True) verdicts_b)"
  define decision where "decision = fst (contains_voice quantize is_speech ac audio (int fs))"
  define decision_b where "decision_b = fst (contains_voice quantize is_speech ac_b audio_b (int fs))"
  have d: "decision = Inr (classified \<noteq> 0 \<and> 0.15 \<le> real voiced / real classified)"
    unfolding decision_def classified_def voiced_def verdicts_def
    by (simp add: contains_voice_full_frames [OF assms(1,2)])
  have db2: "decision_b = Inr (classified_b \<noteq> 0 \<and> 0.15 \<le> real voiced_b / real classified_b)"
    unfolding decision_b_def classified_b_def voiced_b_def verdicts_b_def
    by (simp add: contains_voice_full_frames [OF assms(1,3)])
  have exact: "0 < classified \<and> real voiced / real classified = 0.15 \<longrightarrow> decision = Inr True"
    using d by simp
  have below: "0 < classified \<and> real voiced / real classified < 0.15 \<longrightarrow> decision = Inr False"
    using d by simp
  have none: "classified = 0 \<longrightarrow> decision = Inr False"
    using d by simp
  have nofail: "None \<notin> set verdicts \<longrightarrow>
        classified = length (full_frames (map quantize audio) fs)
        \<and> decision = Inr (chunkIsVoiced_spec quantize is_speech (sample_rate ac) audio fs)"
  proof
    assume n: "None \<notin> set verdicts"
    then have f: "filter (\<lambda>v. v \<noteq> None) verdicts = verdicts" by (rule filter_classified_all)
    then have c: "classified = length verdicts" by (simp add: classified_def)
    have l: "length verdicts = length (full_frames (map quantize audio) fs)"
      by (simp add: verdicts_def)
    have s: "chunkIsVoiced_spec quantize is_speech (sample_rate ac) audio fs
          = (verdicts \<noteq> [] \<and> 0.15 \<le> real voiced / real (length verdicts))"
      by (simp add: chunkIsVoiced_spec_def Let_def verdicts_def voiced_def)
    have "decision = Inr (length verdicts \<noteq> 0 \<and> 0.15 \<le> real voiced / real (length verdicts))"
      unfolding d c ..
    also have "\<dots> = Inr (chunkIsVoiced_spec quantize is_speech (sample_rate ac) audio fs)"
      unfolding s by simp
    finally have e: "decision = Inr (chunkIsVoiced_spec quantize is_speech (sample_rate ac) audio fs)" .
    from c l have "classified = length (full_frames (map quantize audio) fs)" by (rule trans)
    with e show "classified = length (full_frames (map quantize audio) fs)
        \<and> decision = Inr (chunkIsVoiced_spec quantize is_speech (sample_rate ac) audio fs)"
      by (simp only: simp_thms)
  qed
  have indep: "fst (contains_voice quantize is_speech
                       (ac\<lparr> total_frames := seen, voiced_frames := heard \<rparr>) audio (int fs))
                = decision" for seen heard
    unfolding decision_def by (rule contains_voice_same_decision) simp
  have mono: "decision = Inr True \<and> 0 < classified_b
                \<and> real voiced / real classified \<le> real voiced_b / real classified_b
              \<longrightarrow> decision_b = Inr True"
  proof
    assume a: "decision = Inr True \<and> 0 < classified_b
                \<and> real voiced / real classified \<le> real voiced_b / real classified_b"
    with d have "0.15 \<le> real voiced / real classified" by simp
    with a have "0.15 \<le> real voiced_b / real classified_b" by linarith
    with a show "decision_b = Inr True" by (simp add: db2)
  qed
  from exact below none nofail indep mono
  show ?thesis
    unfolding Let_def verdicts_def [symmetric] classified_def [symmetric] voiced_def [symmetric]
      verdicts_b_def [symmetric] classified_b_def [symmetric] voiced_b_def [symmetric]
      decision_def [symmetric] decision_b_def [symmetric]
    by blast
qed

text \<open>
  Forty-one samples at two samples per frame are twenty full frames, three of them
  voiced: the ratio is exactly 0.15 and the chunk is accepted, with any lifetime
  counters. Fifteen samples are seven full frames, one voiced: the ratio 1/7 is below
  0.15 and the chunk is rejected. The classifier fails on no frame.
\<close>

theorem gate_threshold_witness:
  "(0::nat) < 2
   \<and> length (full_frames
          [1, 1, 1, 1, 1, 1, 0, 0, 0, 0, 0, 0, 0, 0, 0, 0, 0, 0, 0, 0, 0, 0, 0, 0, 0, 0,
          0, 0, 0, 0, 0, 0, 0, 0, 0, 0, 0, 0, 0, 0, 0 :: nat] 2) = 20
   \<and> length (filter (\<lambda>f. f = [1, 1]) (full_frames
          [1, 1, 1, 1, 1, 1, 0, 0, 0, 0, 0, 0, 0, 0, 0, 0, 0, 0, 0, 0, 0, 0, 0, 0, 0, 0,
          0, 0, 0, 0, 0, 0, 0, 0, 0, 0, 0, 0, 0, 0, 0 :: nat] 2)) = 3
   \<and> real 3 / real 20 = 0.15
   \<and> fst (contains_voice (\<lambda>x. x) (\<lambda>f r. Some (f = [1, 1])) (AudioCapture_init 16000 1 True False)
          [1, 1, 1, 1, 1, 1, 0, 0, 0, 0, 0, 0, 0, 0, 0, 0, 0, 0, 0, 0, 0, 0, 0, 0, 0, 0,
          0, 0, 0, 0, 0, 0, 0, 0, 0, 0, 0, 0, 0, 0, 0 :: nat] 2) = Inr True
   \<and> fst (contains_voice (\<lambda>x. x) (\<lambda>f r. Some (f = [1, 1]))
          ((AudioCapture_init 16000 1 True False)\<lparr> total_frames := 1000, voiced_frames := 0 \<rparr>)
          [1, 1, 1, 1, 1, 1, 0, 0, 0, 0, 0, 0, 0, 0, 0, 0, 0, 0, 0, 0, 0, 0, 0, 0, 0, 0,
          0, 0, 0, 0, 0, 0, 0, 0, 0, 0, 0, 0, 0, 0, 0 :: nat] 2) = Inr True
   \<and> length (full_frames
          [1, 1, 0, 0, 0, 0, 0, 0, 0, 0, 0, 0, 0, 0, 0 :: nat] 2) = 7
   \<and> length (filter (\<lambda>f. f = [1, 1]) (full_frames
          [1, 1, 0, 0, 0, 0, 0, 0, 0, 0, 0, 0, 0, 0, 0 :: nat] 2)) = 1
   \<and> real 1 / real 7 < 0.15
   \<and> fst (contains_voice (\<lambda>x. x) (\<lambda>f r. Some (f = [1, 1])) (AudioCapture_init 16000 1 True False)
          [1, 1, 0, 0, 0, 0, 0, 0, 0, 0, 0, 0, 0, 0, 0 :: nat] 2) = Inr False"
proof -
  define a where "a = [1, 1, 1, 1, 1, 1, 0, 0, 0, 0, 0, 0, 0, 0, 0, 0, 0, 0, 0, 0, 0, 0, 0, 0, 0, 0,
          0, 0, 0, 0, 0, 0, 0, 0, 0, 0, 0, 0, 0, 0, 0 :: nat]"
  define b where "b = [1, 1, 0, 0, 0, 0, 0, 0, 0, 0, 0, 0, 0, 0, 0 :: nat]"
  have p: "(0::nat) < 2" by simp
  have la: "length a = 41" and lb: "length b = 15" by (simp_all add: a_def b_def)
  have da: "length a < 2 \<or> \<not> 2 dvd length a" unfolding la by simp
  have db: "length b < 2 \<or> \<not> 2 dvd length b" unfolding lb by simp
  have fa: "full_frames (map (\<lambda>x. x) a) 2 =
          [[1, 1], [1, 1], [1, 1], [0, 0], [0, 0], [0, 0], [0, 0], [0, 0], [0, 0], [0, 0],
          [0, 0], [0, 0], [0, 0], [0, 0], [0, 0], [0, 0], [0, 0], [0, 0], [0, 0], [0, 0]]"
    by (simp add: a_def full_frames_def frame_of_def upt_rec)
  have fb: "full_frames (map (\<lambda>x. x) b) 2 =
          [[1, 1], [0, 0], [0, 0], [0, 0], [0, 0], [0, 0], [0, 0]]"
    by (simp add: b_def full_frames_def frame_of_def upt_rec)
  have ca: "length (filter (\<lambda>v. v \<noteq> None)
              (map (\<lambda>f. Some (f = [1, 1])) (full_frames (map (\<lambda>x. x) a) 2))) = 20"
    and va: "length (filter (\<lambda>v. v = Some True)
              (map (\<lambda>f. Some (f = [1, 1])) (full_frames (map (\<lambda>x. x) a) 2))) = 3"
    unfolding filter_classified_total fa by simp_all
  have cb: "length (filter (\<lambda>v. v \<noteq> None)
              (map (\<lambda>f. Some (f = [1, 1])) (full_frames (map (\<lambda>x. x) b) 2))) = 7"
    and vb: "length (filter (\<lambda>v. v = Some True)
              (map (\<lambda>f. Some (f = [1, 1])) (full_frames (map (\<lambda>x. x) b) 2))) = 1"
    unfolding filter_classified_total fb by simp_all
  have r: "real 3 / real 20 = 0.15" "real 1 / real 7 < 0.15" by simp_all
  note w1 = gate_threshold [OF p da db, where quantize = "\<lambda>x. x" and is_speech = "\<lambda>f r. Some (f = [1, 1])"
      and ac = "AudioCapture_init 16000 1 True False" and ac_b = "AudioCapture_init 16000 1 True False", unfolded Let_def ca va cb vb]
  note w2 = gate_threshold [OF p db da, where quantize = "\<lambda>x. x" and is_speech = "\<lambda>f r. Some (f = [1, 1])"
      and ac = "AudioCapture_init 16000 1 True False" and ac_b = "AudioCapture_init 16000 1 True False", unfolded Let_def ca va cb vb]
  from w1 [THEN conjunct1] r(1)
  have x1: "fst (contains_voice (\<lambda>x. x) (\<lambda>f r. Some (f = [1, 1])) (AudioCapture_init 16000 1 True False) a 2) = Inr True"
    by simp
  from w1 [THEN conjunct2, THEN conjunct2, THEN conjunct2, THEN conjunct2, THEN conjunct1,
      THEN spec [where x = 1000], THEN spec [where x = 0]] x1
  have x2: "fst (contains_voice (\<lambda>x. x) (\<lambda>f r. Some (f = [1, 1]))
          ((AudioCapture_init 16000 1 True False)\<lparr> total_frames := 1000, voiced_frames := 0 \<rparr>) a 2) = Inr True"
    by simp
  from w2 [THEN conjunct2, THEN conjunct1] r(2)
  have x3: "fst (contains_voice (\<lambda>x. x) (\<lambda>f r. Some (f = [1, 1])) (AudioCapture_init 16000 1 True False) b 2) = Inr False"
    by simp
  have ya: "length (full_frames a 2) = 20" "length (filter (\<lambda>f. f = [1, 1]) (full_frames a 2)) = 3"
    and yb: "length (full_frames b 2) = 7" "length (filter (\<lambda>f. f = [1, 1]) (full_frames b 2)) = 1"
    using fa fb by simp_all
  from p r x1 x2 x3 ya yb show ?thesis unfolding a_def b_def by (simp only: simp_thms)
qed

text \<open>
  Claim C6 as stated fails. Seventeen samples at two samples per frame are eight full
  frames; the classifier accepts the first and fails on the other seven. One frame in
  eight is voiced, a ratio of 0.125, below 0.15; but the failing frames are skipped, the
  code compares 1/1 with the threshold, and the chunk is accepted.
\<close>

theorem gate_threshold_counterexample:
  "length (full_frames
          [1, 1, 0, 0, 0, 0, 0, 0, 0, 0, 0, 0, 0, 0, 0, 0, 0 :: nat] 2) = 8
   \<and> length (filter (\<lambda>f. (\<lambda>f r. if f = [1, 1] then Some True else None) f 16000 = Some True) (full_frames
          [1, 1, 0, 0, 0, 0, 0, 0, 0, 0, 0, 0, 0, 0, 0, 0, 0 :: nat] 2)) = 1
   \<and> real 1 / real 8 < 0.15
   \<and> fst (contains_voice (\<lambda>x. x) (\<lambda>f r. if f = [1, 1] then Some True else None) (AudioCapture_init 16000 1 True False)
          [1, 1, 0, 0, 0, 0, 0, 0, 0, 0, 0, 0, 0, 0, 0, 0, 0 :: nat] 2) = Inr True"
proof -
  have "fst (contains_voice (\<lambda>x. x) (\<lambda>f r. if f = [1, 1] then Some True else None) (AudioCapture_init 16000 1 True False)
          [1, 1, 0, 0, 0, 0, 0, 0, 0, 0, 0, 0, 0, 0, 0, 0, 0 :: nat] 2) = Inr True"
    by (simp add: contains_voice_def vad_loop_def py_range_def upt_rec vad_frame_step
          AudioCapture_init_def voice_decision_def)
  moreover have "full_frames
          [1, 1, 0, 0, 0, 0, 0, 0, 0, 0, 0, 0, 0, 0, 0, 0, 0 :: nat] 2 =
          [[1, 1], [0, 0], [0, 0], [0, 0], [0, 0], [0, 0], [0, 0], [0, 0]]"
    by (simp add: full_frames_def frame_of_def upt_rec)
  ultimately show ?thesis by simp
qed

section \<open>Audio capture\<close>

lemma audio_callback_recording:
  assumes "recording ac"
  shows "audio_callback indata ac =
     ac\<lparr> audio_buffer := audio_buffer ac @ copy_block (channels ac) indata,
         waveform_log := waveform_log ac @
            (if waveform_callback_set ac then [copy_block (channels ac) indata] else []) \<rparr>"
  using assms by (simp add: audio_callback_def Let_def)

text \<open>While the capture is recording, the blocks delivered are appended in order.\<close>

lemma deliver_recording:
  assumes "recording ac"
  shows "deliver blocks ac =
     ac\<lparr> audio_buffer := audio_buffer ac @ concat (map (copy_block (channels ac)) blocks),
         waveform_log := waveform_log ac @
            (if waveform_callback_set ac then map (copy_block (channels ac)) blocks else []) \<rparr>"
  using assms
proof (induction blocks arbitrary: ac)
  case Nil
  show ?case by (simp add: deliver_def)
next
  case (Cons b blocks)
  let ?ac = "audio_callback b ac"
  have s: "?ac = ac\<lparr> audio_buffer := audio_buffer ac @ copy_block (channels ac) b,
         waveform_log := waveform_log ac @
            (if waveform_callback_set ac then [copy_block (channels ac) b] else []) \<rparr>"
    using Cons.prems by (rule audio_callback_recording)
  have "deliver (b # blocks) ac = deliver blocks ?ac" by (simp add: deliver_def)
  also have "\<dots> = ?ac\<lparr> audio_buffer := audio_buffer ?ac @ concat (map (copy_block (channels ?ac)) blocks),
         waveform_log := waveform_log ?ac @
            (if waveform_callback_set ?ac then map (copy_block (channels ?ac)) blocks else []) \<rparr>"
    using Cons.prems by (intro Cons.IH) (simp add: s)
  also have "\<dots> = ac\<lparr> audio_buffer := audio_buffer ac @ concat (map (copy_block (channels ac)) (b # blocks)),
         waveform_log := waveform_log ac @
            (if waveform_callback_set ac then map (copy_block (channels ac)) (b # blocks) else []) \<rparr>"
    by (simp add: s)
  finally show ?case .
qed

lemma copy_block_mono:
  "chans = 1 \<Longrightarrow>
   concat (map (copy_block chans) blocks) = map Sample (concat (map (map fst) blocks))"
  by (induction blocks) (simp_all add: copy_block_def)

text \<open>
  Claim C10. \<^verbatim>\<open>start\<close> on a capture that is already running returns without raising and
  leaves the whole object as it was: buffer, start time, counters and stream.
\<close>

theorem start_while_running:
  "recording ac \<Longrightarrow> AudioCapture_start now opening ac = (None, ac)"
  by (simp add: AudioCapture_start_def)


theorem start_while_running_witness:
  "recording (snd (AudioCapture_start 1 OpenOk (AudioCapture_init 16000 1 False True :: nat AudioCapture)))
   \<and> AudioCapture_start 2 OpenOk
        (snd (AudioCapture_start 1 OpenOk (AudioCapture_init 16000 1 False True :: nat AudioCapture)))
     = (None, snd (AudioCapture_start 1 OpenOk (AudioCapture_init 16000 1 False True :: nat AudioCapture)))"
proof -
  have r: "recording (snd (AudioCapture_start 1 OpenOk (AudioCapture_init 16000 1 False True :: nat AudioCapture)))"
    by (simp add: AudioCapture_start_def AudioCapture_init_def)
  from start_while_running [OF r] r show ?thesis by simp
qed

text \<open>
  Claim C9. In batch mode (no chunk callback, so \<^verbatim>\<open>start\<close> starts no processing
  thread): after a \<^verbatim>\<open>start\<close> that opened the stream, the blocks the driver delivers are
  appended in order, \<^verbatim>\<open>stop\<close> returns exactly what was delivered, with one channel the
  samples \<open>s0, \<dots>, sN\<close> themselves, and the buffer is empty after the next \<^verbatim>\<open>start\<close>,
  whether or not that one opens its stream.
\<close>

theorem batch_drain:
  assumes "\<not> recording ac" and "\<not> chunk_callback_set ac"
  shows "(case AudioCapture_start tstart OpenOk ac of (r, ac1) \<Rightarrow>
           r = None \<and> capture_thread ac1 = capture_thread ac \<and>
           (case AudioCapture_stop None (deliver blocks ac1) of (out, ac2) \<Rightarrow>
              out = Inr (concat (map (copy_block (channels ac)) blocks)) \<and>
              (channels ac = 1 \<longrightarrow> out = Inr (map Sample (concat (map (map fst) blocks)))) \<and>
              audio_buffer (snd (AudioCapture_start tnext how ac2)) = []))"
proof -
  obtain ac1 where s: "AudioCapture_start tstart OpenOk ac = (None, ac1)"
    and r1: "recording ac1" and c1: "channels ac1 = channels ac" and b1: "audio_buffer ac1 = []"
    and t1: "capture_thread ac1 = capture_thread ac"
    using assms by (simp add: AudioCapture_start_def Let_def)
  have d: "audio_buffer (deliver blocks ac1) = concat (map (copy_block (channels ac)) blocks)"
    by (simp add: deliver_recording [OF r1] b1 c1)
  obtain out ac2 where st: "AudioCapture_stop None (deliver blocks ac1) = (out, ac2)"
    by (cases "AudioCapture_stop None (deliver blocks ac1)")
  from st d have o: "out = Inr (concat (map (copy_block (channels ac)) blocks))"
    and nr: "\<not> recording ac2"
    by (auto simp: AudioCapture_stop_def Let_def split: option.splits)
  from o have m: "channels ac = 1 \<longrightarrow> out = Inr (map Sample (concat (map (map fst) blocks)))"
    by (simp add: copy_block_mono)
  from nr have e: "audio_buffer (snd (AudioCapture_start tnext how ac2)) = []"
    by (cases how) (simp_all add: AudioCapture_start_def Let_def)
  show ?thesis using s t1 st o m e by simp
qed

theorem batch_drain_witness:
  "AudioCapture_start 0 OpenOk (AudioCapture_init 16000 1 False True :: nat AudioCapture)
     = (None, (AudioCapture_init 16000 1 False True)\<lparr> recording := True, stream := Some 0, streams_opened := 1 \<rparr>)
   \<and> fst (AudioCapture_stop None (deliver [[(1, []), (2, [])], [], [(3, [])]]
        (snd (AudioCapture_start 0 OpenOk (AudioCapture_init 16000 1 False True :: nat AudioCapture)))))
     = Inr [Sample 1, Sample 2, Sample 3]"
proof -
  have a: "\<not> recording (AudioCapture_init 16000 1 False True :: nat AudioCapture)"
    and b: "channels (AudioCapture_init 16000 1 False True :: nat AudioCapture) = 1"
    and c: "\<not> chunk_callback_set (AudioCapture_init 16000 1 False True :: nat AudioCapture)"
    by (simp_all add: AudioCapture_init_def)
  have s: "AudioCapture_start 0 OpenOk (AudioCapture_init 16000 1 False True :: nat AudioCapture)
     = (None, (AudioCapture_init 16000 1 False True)\<lparr> recording := True, stream := Some 0, streams_opened := 1 \<rparr>)"
    by (simp add: AudioCapture_start_def AudioCapture_init_def)
  from batch_drain [OF a c, where tstart = 0 and tnext = 0 and how = OpenOk
      and blocks = "[[(1, []), (2, [])], [], [(3, [])]]"] s b
  show ?thesis by (simp split: prod.splits)
qed

section \<open>The insertion chain\<close>

text \<open>The candidate order for each configured preference.\<close>

lemma candidate_methods_table:
  "candidate_methods ''auto'' = [AUTO_PASTE, DIRECT, CLIPBOARD]"
  "candidate_methods ''direct'' = [DIRECT, AUTO_PASTE, CLIPBOARD]"
  "candidate_methods ''auto_paste'' = [AUTO_PASTE, CLIPBOARD]"
  "candidate_methods ''clipboard'' = [CLIPBOARD]"
  by (simp_all add: candidate_methods_def)

text \<open>
  Without ydotool the two methods that need it fail at once and make no external call.
\<close>

lemma attempt_without_ydotool:
  assumes "\<not> ydotool_available ti" and "m \<noteq> CLIPBOARD"
  shows "attempt env ti content m calls = (Inr False, calls)"
  using assms
  by (cases m) (simp_all add: insert_direct_def insert_auto_paste_def insert_with_ydotool_def)

text \<open>The first method that reports success is returned and recorded; a failed one is passed over.\<close>

lemma try_methods_first_success:
  assumes "fst (attempt env ti content m calls) = Inr True"
  shows "try_methods env content (m # ms) last_error ti calls =
           (Inr m, ti\<lparr> last_method_used := Some m \<rparr>, snd (attempt env ti content m calls))"
  using assms by (cases "attempt env ti content m calls") simp

lemma try_methods_pass_over:
  assumes "fst (attempt env ti content m calls) = Inr False"
  shows "try_methods env content (m # ms) last_error ti calls =
           try_methods env content ms last_error ti (snd (attempt env ti content m calls))"
  using assms by (cases "attempt env ti content m calls") simp

text \<open>
  Every exception of the clipboard and of the ydotool process is caught inside the
  method and turned into \<^verbatim>\<open>False\<close>. So, unless formatting a log line fails, no method
  raises, \<^verbatim>\<open>last_error\<close> is never assigned, and the aggregated exception always reads
  \<^verbatim>\<open>Last error: None\<close>.
\<close>

lemma attempt_returns:
  assumes "\<And>m d. run_outcome env m \<noteq> CalledProcessError (Some d)"
  shows "\<exists>ok. fst (attempt env ti content m calls) = Inr ok"
proof (cases m)
  case DIRECT
  from assms [of DIRECT] show ?thesis unfolding DIRECT
    by (auto simp add: insert_direct_def insert_with_ydotool_def split: option.splits run_result.splits)
next
  case AUTO_PASTE
  from assms [of AUTO_PASTE] show ?thesis unfolding AUTO_PASTE
    by (auto simp add: insert_auto_paste_def insert_with_ydotool_def split: option.splits run_result.splits)
next
  case CLIPBOARD
  show ?thesis unfolding CLIPBOARD
    by (auto simp add: insert_clipboard_def split: option.splits)
qed

lemma try_methods_last_error_none:
  assumes "\<And>m d. run_outcome env m \<noteq> CalledProcessError (Some d)"
    and "fst (try_methods env content ms None ti calls) = Inl e"
  shows "e = Exception ''All text insertion methods failed. Last error: None''"
  using assms(2)
proof (induction ms arbitrary: calls)
  case Nil
  then show ?case by simp
next
  case (Cons m ms)
  from attempt_returns [OF assms(1), of ti content m calls]
  obtain ok calls' where a: "attempt env ti content m calls = (Inr ok, calls')"
    by (cases "attempt env ti content m calls") auto
  show ?case
  proof (cases ok)
    case True
    with a Cons.prems show ?thesis by simp
  next
    case False
    with a Cons.prems have "fst (try_methods env content ms None ti calls') = Inl e" by simp
    then show ?thesis by (rule Cons.IH)
  qed
qed

lemma insert_text_last_error_none:
  assumes "\<And>m d. run_outcome env m \<noteq> CalledProcessError (Some d)"
    and "fst (insert_text env content ti calls) = Inl e"
  shows "e = Exception ''All text insertion methods failed. Last error: None''"
proof (cases "content = []")
  case True
  with assms(2) show ?thesis by (simp add: insert_text_def)
next
  case False
  with assms(2) have "fst (try_methods env content (candidate_methods (preferred_method ti)) None ti calls) = Inl e"
    by (simp add: insert_text_def)
  with assms(1) show ?thesis by (rule try_methods_last_error_none)
qed

text \<open>
  Claim C4 at a failing input. The preference is \<^verbatim>\<open>auto\<close>, ydotool is present, and the
  clipboard is unavailable, so that \<^verbatim>\<open>pyperclip.copy\<close> raises in each of the three
  methods. All three are attempted, in the configured order, and the chain raises; but
  the message of the aggregated exception says \<^verbatim>\<open>Last error: None\<close> and does not
  describe the clipboard failure.
\<close>

theorem insert_text_error_hides_cause:
  "insert_text
     \<lparr> copy_raises = (\<lambda>m. Some (Exception ''Pyperclip could not find a copy/paste mechanism for your system'')),
       run_outcome = (\<lambda>m. Completed) \<rparr>
     ''hello''
     \<lparr> preferred_method = ''auto'', ydotool_available = True, last_method_used = None \<rparr> []
   = (Inl (Exception ''All text insertion methods failed. Last error: None''),
      \<lparr> preferred_method = ''auto'', ydotool_available = True, last_method_used = None \<rparr>,
      [Copy ''hello'', Copy ''hello'', Copy ''hello''])"
  by (simp add: insert_text_def candidate_methods_def insert_direct_def insert_auto_paste_def
        insert_clipboard_def insert_with_ydotool_def)

section \<open>The command transport\<close>

text \<open>
  A connection is always closed and gets at most one response. A request that is not
  valid JSON, a command without a handler, and a handler that raises are each answered
  with one error response (when writing to the socket succeeds).
\<close>

lemma respond_once:
  "closed (respond sr r names w)" "length (sent (respond sr r names w)) \<le> Suc 0"
  by (simp_all add: respond_def split: option.splits)

lemma dropped_once:
  "closed (dropped w)" "length (sent (dropped w)) \<le> Suc 0"
  by (simp_all add: dropped_def)

lemma call_handler_once:
  "closed (call_handler sr c h args w)" "length (sent (call_handler sr c h args w)) \<le> Suc 0"
  by (simp_all add: call_handler_def respond_once split: json.splits prod.splits sum.splits)

lemma handle_client_once:
  "closed (handle_client L H sr rcv w) \<and> length (sent (handle_client L H sr rcv w)) \<le> 1"
  by (simp add: handle_client_def respond_once dropped_once call_handler_once
        split: received.splits option.splits json.splits atom.splits)

lemma handle_client_invalid_json:
  assumes "data \<noteq> []" and "L data = None"
  shows "handle_client L H sr (Text data) w = respond sr (ErrorResponse ''Invalid JSON'') [] w"
  using assms by (simp add: handle_client_def)

lemma handle_client_unknown_command:
  assumes "data \<noteq> []" and "L data = Some (JDict m)"
    and "dict_get m ''command'' (Atom ANone) = Atom (AStr c)" and "H c = None"
  shows "handle_client L H sr (Text data) w =
           respond sr (ErrorResponse (''Unknown command: '' @ c)) [] w"
  using assms by (simp add: handle_client_def)

lemma handle_client_handler_raises:
  assumes "data \<noteq> []" and "L data = Some (JDict m)"
    and "dict_get m ''command'' (Atom ANone) = Atom (AStr c)" and "H c = Some h"
    and "dict_get m ''args'' (JDict []) = JDict kw" and "snd h kw w = (Inl e, w')"
  shows "handle_client L H sr (Text data) w = respond sr (ErrorResponse (str_exn e)) [c] w'"
  using assms by (simp add: handle_client_def call_handler_def)

lemma handle_client_args_not_mapping:
  assumes "data \<noteq> []" and "L data = Some (JDict m)"
    and "dict_get m ''command'' (Atom ANone) = Atom (AStr c)" and "H c = Some h"
    and "dict_get m ''args'' (JDict []) = JList xs"
  shows "handle_client L H sr (Text data) w =
           respond sr
             (ErrorResponse (fst h @ ''() argument after ** must be a mapping, not list'')) [] w"
  using assms by (simp add: handle_client_def call_handler_def)

lemma handle_client_not_object:
  assumes "data \<noteq> []" and "L data = Some j" and "\<And>m. j \<noteq> JDict m"
  shows "sent (handle_client L H sr (Text data) w) = []"
  using assms by (cases j) (auto simp add: handle_client_def dropped_def)

text \<open>
  Claim C8 at two failing inputs. The request \<^verbatim>\<open>[]\<close> is valid JSON but not an object:
  \<^verbatim>\<open>message.get\<close> raises \<^verbatim>\<open>AttributeError\<close>, which the handler for \<^verbatim>\<open>JSONDecodeError\<close>
  does not catch, so the outer handler logs it and the connection is closed without any
  response. A request whose bytes are not UTF-8 fails in \<^verbatim>\<open>decode\<close> and is dropped in
  the same way.
\<close>

theorem handle_client_drops_non_object:
  "handle_client (\<lambda>s. if s = ''[]'' then Some (JList []) else None) Map.empty None (Text ''[]'') ()
     = \<lparr> sent = [], closed = True, invoked = [], program = () \<rparr>
   \<and> handle_client (\<lambda>s. None) Map.empty None (Raises (Exception ''invalid start byte'')) ()
     = \<lparr> sent = [], closed = True, invoked = [], program = () \<rparr>"
  by (simp add: handle_client_def dropped_def)

section \<open>The session orchestrator\<close>

lemma emit_fields [simp]:
  "state (emit ev d) = state d"
  "audio_capture (emit ev d) = audio_capture d"
  "text_injector (emit ev d) = text_injector d"
  "desktop (emit ev d) = desktop d"
  "model_loaded (emit ev d) = model_loaded d"
  "sessions_count (emit ev d) = sessions_count d"
  "session_start_time (emit ev d) = session_start_time d"
  "events (emit ev d) = events d @ (if gui_window d then [ev] else [])"
  by (simp_all add: emit_def)

lemma insert_transcription_state:
  "state (snd (insert_transcription env content d)) = state d"
  by (simp add: insert_transcription_def split: prod.splits)

lemma insert_transcription_blank:
  "insert_transcription env [] d = (None, d)"
  by (simp add: insert_transcription_def)

lemma stop_failed_state: "state (snd (stop_failed e d)) = IDLE" "\<not> success (fst (stop_failed e d))"
  by (simp_all add: stop_failed_def)

lemma stop_rejected:
  "state d \<noteq> RECORDING \<Longrightarrow> handle_stop_command env d = (Failure ''No recording in progress'', d)"
  by (simp add: handle_stop_command_def)

lemma stop_in_recording:
  assumes "state d = RECORDING"
  shows "state (snd (handle_stop_command env d)) = IDLE"
proof -
  obtain res ac where a: "AudioCapture_stop (stream_closing env) (audio_capture d) = (res, ac)"
    by (cases "AudioCapture_stop (stream_closing env) (audio_capture d)")
  show ?thesis
  proof (cases res)
    case (Inl e)
    with assms a show ?thesis
      by (simp add: handle_stop_command_def stop_failed_def)
  next
    case (Inr all_audio)
    show ?thesis
    proof (cases "8000 < length all_audio")
      case False
      with assms a Inr show ?thesis
        by (simp add: handle_stop_command_def Let_def insert_transcription_blank)
    next
      case True
      with assms a Inr show ?thesis
        by (cases "transcribe_full_audio (model_loaded d) (engine env all_audio)")
           (simp_all add: handle_stop_command_def Let_def stop_failed_def
              insert_transcription_state split: prod.splits)
    qed
  qed
qed

lemma stop_state:
  "state (snd (handle_stop_command env d)) = (if state d = RECORDING then IDLE else state d)"
  by (simp add: stop_in_recording stop_rejected)

lemma start_state:
  "state (snd (handle_start_command env d)) =
     (if state d = IDLE
      then (if fst (AudioCapture_start (clock_capture env) (stream_opening env) (audio_capture d)) = None
            then RECORDING else IDLE)
      else state d)"
  by (simp add: handle_start_command_def Let_def split: prod.splits option.splits)

lemma start_failure_state:
  "\<not> success (fst (handle_start_command env d)) \<Longrightarrow> state (snd (handle_start_command env d)) = state d"
  by (auto simp add: handle_start_command_def Let_def split: prod.splits option.splits if_splits)

lemma gui_stop_state:
  "state (handle_gui_stop_request env d) = state (snd (handle_stop_command env d))"
  by (cases "handle_stop_command env d") (simp add: handle_gui_stop_request_def)

lemma shutdown_state:
  "state (snd (handle_shutdown_command env d)) = (if state d = RECORDING then IDLE else state d)"
  by (simp add: handle_shutdown_command_def stop_state)

lemma step_not_processing:
  "state d \<noteq> PROCESSING \<Longrightarrow> state (step env i d) \<noteq> PROCESSING"
  by (cases i)
     (simp_all add: stop_state start_state gui_stop_state shutdown_state handle_status_command_def)

lemma run_not_processing:
  "state d \<noteq> PROCESSING \<Longrightarrow> state (run inputs d) \<noteq> PROCESSING"
proof (induction inputs arbitrary: d)
  case Nil
  then show ?case by simp
next
  case (Cons a inputs)
  obtain i env where a: "a = (i, env)" by (cases a)
  from Cons.prems have "state (step env i d) \<noteq> PROCESSING" by (rule step_not_processing)
  then show ?case unfolding a by (simp add: Cons.IH)
qed

lemma stop_success_idle:
  "success (fst (handle_stop_command env d)) \<Longrightarrow> state d = RECORDING"
  by (rule ccontr) (simp add: stop_rejected)

lemmas daemon_eval =
  WhisperDaemon_init_def AudioCapture_init_def calm_env_def handle_start_command_def
  handle_stop_command_def AudioCapture_start_def AudioCapture_stop_def audio_callback_def
  copy_block_def
  emit_def stop_failed_def transcribe_full_audio_def insert_transcription_def Let_def

text \<open>
  Claim C7, as amended. A \<^verbatim>\<open>stop\<close> command in a state other than Recording returns
  the failure with the fixed message \<^verbatim>\<open>No recording in progress\<close> and leaves the whole
  daemon unchanged: state, capture buffer, counters, window signals.
\<close>

theorem stop_outside_recording:
  "state d \<noteq> RECORDING \<Longrightarrow> handle_stop_command env d = (Failure ''No recording in progress'', d)"
  by (simp add: handle_stop_command_def)

theorem stop_outside_recording_witness:
  "state (WhisperDaemon_init 16000 1 ''auto'' True True :: nat WhisperDaemon) \<noteq> RECORDING
   \<and> handle_stop_command (calm_env []) (WhisperDaemon_init 16000 1 ''auto'' True True :: nat WhisperDaemon)
       = (Failure ''No recording in progress'', WhisperDaemon_init 16000 1 ''auto'' True True)"
proof -
  have h: "state (WhisperDaemon_init 16000 1 ''auto'' True True :: nat WhisperDaemon) \<noteq> RECORDING"
    by (simp add: WhisperDaemon_init_def)
  from stop_outside_recording [OF h] h show ?thesis by simp
qed

text \<open>
  Claim C7 as stated fails: the message of the failure is the same in Idle and in
  Processing, and contains the name of neither state.
\<close>

theorem stop_message_counterexample:
  "state (WhisperDaemon_init 16000 1 ''auto'' True True :: nat WhisperDaemon) = IDLE
   \<and> message (fst (handle_stop_command (calm_env [])
        (WhisperDaemon_init 16000 1 ''auto'' True True :: nat WhisperDaemon)))
      = ''No recording in progress''
   \<and> message (fst (handle_stop_command (calm_env [])
        ((WhisperDaemon_init 16000 1 ''auto'' True True :: nat WhisperDaemon)\<lparr> state := PROCESSING \<rparr>)))
      = ''No recording in progress''
   \<and> \<not> sublist (SessionState_value IDLE) ''No recording in progress''
   \<and> \<not> sublist (SessionState_value PROCESSING) ''No recording in progress''"
  by (simp add: handle_stop_command_def WhisperDaemon_init_def sublist_Cons_right)

text \<open>
  Claim C2. From Idle, with a stream that opens, the first \<^verbatim>\<open>start\<close> succeeds and
  enters Recording; a second \<^verbatim>\<open>start\<close>, whatever its environment, returns the failure
  \<^verbatim>\<open>Cannot start: already recording\<close>, which names the state, and leaves the whole
  daemon unchanged: state, start time, session count, the capture object (no second
  stream is opened) and the window signals.
\<close>

theorem start_twice:
  assumes "state d = IDLE" and "stream_opening env1 = OpenOk"
  shows "case handle_start_command env1 d of (r1, d1) \<Rightarrow>
           success r1 \<and> state d1 = RECORDING
           \<and> (case handle_start_command env2 d1 of (r2, d2) \<Rightarrow>
                r2 = Failure (''Cannot start: already '' @ SessionState_value RECORDING)
                \<and> \<not> success r2
                \<and> sublist (SessionState_value (state d1)) (message r2)
                \<and> d2 = d1)"
proof -
  obtain r1 d1 where a: "handle_start_command env1 d = (r1, d1)"
    by (cases "handle_start_command env1 d")
  have f: "fst (AudioCapture_start (clock_capture env1) OpenOk (audio_capture d)) = None"
    by (simp add: AudioCapture_start_def Let_def)
  from a assms f have s: "success r1" and st: "state d1 = RECORDING"
    by (auto simp add: handle_start_command_def Let_def split: prod.splits option.splits)
  from st have b: "handle_start_command env2 d1 = (Failure (''Cannot start: already '' @ SessionState_value RECORDING), d1)"
    by (simp add: handle_start_command_def)
  have "sublist (SessionState_value RECORDING) (''Cannot start: already '' @ SessionState_value RECORDING)"
    by (rule sublist_append_leftI)
  with a s st b show ?thesis by simp
qed

theorem start_twice_witness:
  "fst (handle_start_command (calm_env [])
         (WhisperDaemon_init 16000 1 ''auto'' True True :: nat WhisperDaemon))
     = Started ''Recording started'' ''session_1'' 101
   \<and> handle_start_command (calm_env [])
        (snd (handle_start_command (calm_env [])
          (WhisperDaemon_init 16000 1 ''auto'' True True :: nat WhisperDaemon)))
     = (Failure ''Cannot start: already recording'',
        snd (handle_start_command (calm_env [])
          (WhisperDaemon_init 16000 1 ''auto'' True True :: nat WhisperDaemon)))"
proof -
  have a: "state (WhisperDaemon_init 16000 1 ''auto'' True True :: nat WhisperDaemon) = IDLE"
    by (simp add: WhisperDaemon_init_def)
  have b: "stream_opening (calm_env [] :: nat daemon_env) = OpenOk"
    by (simp add: calm_env_def)
  have c: "fst (handle_start_command (calm_env [])
         (WhisperDaemon_init 16000 1 ''auto'' True True :: nat WhisperDaemon))
     = Started ''Recording started'' ''session_1'' 101"
    by (simp add: daemon_eval digit_char_def)
  from start_twice [OF a b, of "calm_env []"] c show ?thesis
    by (cases "handle_start_command (calm_env [])
          (WhisperDaemon_init 16000 1 ''auto'' True True :: nat WhisperDaemon)";
        cases "handle_start_command (calm_env [])
        (snd (handle_start_command (calm_env [])
          (WhisperDaemon_init 16000 1 ''auto'' True True :: nat WhisperDaemon)))")
       simp
qed

text \<open>
  Claim C3. A \<^verbatim>\<open>stop\<close> in Recording whose drained buffer has fewer than 8000 samples
  succeeds with an empty transcript, word count 0 and insertion method \<^verbatim>\<open>none\<close>. The
  only collaborator call it adds is the hide signal of the window: the transcriber is
  not called, the insertion chain is not called, and the desktop is not touched.
\<close>

theorem short_audio_guard:
  assumes "state d = RECORDING"
    and "AudioCapture_stop (stream_closing env) (audio_capture d) = (Inr all_audio, ac)"
    and "length all_audio < 8000"
  shows "case handle_stop_command env d of (r, d') \<Rightarrow>
           r = Stopped ''Recording stopped'' [] (clock_session env - session_start_time d) ''none'' 0
           \<and> success r \<and> transcription r = [] \<and> word_count r = 0
           \<and> events d' = events d @ (if gui_window d then [HideWindow] else [])
           \<and> desktop d' = desktop d \<and> text_injector d' = text_injector d
           \<and> state d' = IDLE"
  using assms
  by (simp add: handle_stop_command_def Let_def insert_transcription_blank)

theorem short_audio_guard_witness:
  "state (run [(Start, calm_env [''hello'']), (Audio [(1, []), (2, [])], calm_env [''hello''])]
           (WhisperDaemon_init 16000 1 ''auto'' True True :: nat WhisperDaemon)) = RECORDING
   \<and> fst (AudioCapture_stop None (audio_capture
        (run [(Start, calm_env [''hello'']), (Audio [(1, []), (2, [])], calm_env [''hello''])]
           (WhisperDaemon_init 16000 1 ''auto'' True True :: nat WhisperDaemon))))
       = Inr [Sample 1, Sample 2]
   \<and> fst (handle_stop_command (calm_env [''hello''])
        (run [(Start, calm_env [''hello'']), (Audio [(1, []), (2, [])], calm_env [''hello''])]
           (WhisperDaemon_init 16000 1 ''auto'' True True :: nat WhisperDaemon)))
       = Stopped ''Recording stopped'' [] 0 ''none'' 0
   \<and> events (snd (handle_stop_command (calm_env [''hello''])
        (run [(Start, calm_env [''hello'']), (Audio [(1, []), (2, [])], calm_env [''hello''])]
           (WhisperDaemon_init 16000 1 ''auto'' True True :: nat WhisperDaemon))))
       = [ResetTranscription, ShowWindow, HideWindow]"
proof -
  define d where "d = run [(Start, calm_env [''hello'']), (Audio [(1, []), (2, [])], calm_env [''hello''])]
           (WhisperDaemon_init 16000 1 ''auto'' True True :: nat WhisperDaemon)"
  define env where "env = (calm_env [''hello''] :: nat daemon_env)"
  have a: "state d = RECORDING"
    unfolding d_def by (simp add: daemon_eval)
  have f: "fst (AudioCapture_stop None (audio_capture d)) = Inr [Sample 1, Sample 2]"
    unfolding d_def by (simp add: daemon_eval)
  have sc: "stream_closing env = None" and cs: "clock_session env = 101"
    unfolding env_def by (simp_all add: calm_env_def)
  have b: "AudioCapture_stop (stream_closing env) (audio_capture d)
       = (Inr [Sample 1, Sample 2], snd (AudioCapture_stop (stream_closing env) (audio_capture d)))"
    unfolding sc using f by (simp add: prod_eq_iff)
  have c: "length [Sample 1, Sample 2 :: nat buffered] < 8000" by simp
  have e: "events d = [ResetTranscription, ShowWindow]" and w: "gui_window d"
    and t: "session_start_time d = 101"
    unfolding d_def by (simp_all add: daemon_eval)
  from short_audio_guard [OF a b c]
  have "fst (handle_stop_command env d) = Stopped ''Recording stopped'' [] 0 ''none'' 0
      \<and> events (snd (handle_stop_command env d)) = [ResetTranscription, ShowWindow, HideWindow]"
    by (simp add: case_prod_unfold cs t e w)
  with a f show ?thesis unfolding d_def env_def by simp
qed

text \<open>
  Claim C1. In every run from an idle daemon (any inputs, any behaviour of the
  collaborators) the session is never in Processing between two inputs. After a
  \<^verbatim>\<open>stop\<close> attempt the state is Idle if the session was recording, also when the
  capture, the transcriber or the insertion chain raised, and the daemon is unchanged
  otherwise; after a failed \<^verbatim>\<open>start\<close> the state is what it was.
\<close>

theorem session_never_stuck:
  assumes "state d0 = IDLE"
  shows "state (run inputs d0) \<noteq> PROCESSING
       \<and> (\<forall>env. case handle_stop_command env (run inputs d0) of (r, d') \<Rightarrow>
             (state d' = state (run inputs d0) \<or> state d' = IDLE)
             \<and> state d' \<noteq> PROCESSING
             \<and> (success r \<longrightarrow> state d' = IDLE)
             \<and> (state (run inputs d0) = RECORDING \<longrightarrow> state d' = IDLE)
             \<and> (state (run inputs d0) \<noteq> RECORDING \<longrightarrow> \<not> success r \<and> d' = run inputs d0))
       \<and> (\<forall>env. case handle_start_command env (run inputs d0) of (r, d') \<Rightarrow>
             \<not> success r \<longrightarrow> state d' = state (run inputs d0) \<and> state d' \<noteq> PROCESSING)"
proof -
  let ?d = "run inputs d0"
  have np: "state ?d \<noteq> PROCESSING"
    using assms by (intro run_not_processing) simp
  have s: "(state (snd (handle_stop_command env ?d)) = state ?d \<or> state (snd (handle_stop_command env ?d)) = IDLE)
       \<and> state (snd (handle_stop_command env ?d)) \<noteq> PROCESSING
       \<and> (success (fst (handle_stop_command env ?d)) \<longrightarrow> state (snd (handle_stop_command env ?d)) = IDLE)
       \<and> (state ?d = RECORDING \<longrightarrow> state (snd (handle_stop_command env ?d)) = IDLE)
       \<and> (state ?d \<noteq> RECORDING \<longrightarrow> \<not> success (fst (handle_stop_command env ?d)) \<and> snd (handle_stop_command env ?d) = ?d)" for env
    using np stop_success_idle [of env ?d] by (auto simp add: stop_state stop_rejected)
  have t: "\<not> success (fst (handle_start_command env ?d)) \<longrightarrow>
         state (snd (handle_start_command env ?d)) = state ?d \<and> state (snd (handle_start_command env ?d)) \<noteq> PROCESSING" for env
    using np start_failure_state [of env ?d] by auto
  show ?thesis using np s t by (simp add: case_prod_unfold)
qed

text \<open>
  The speech model is not loaded, so the transcriber raises on the 8001 samples
  recorded: the \<^verbatim>\<open>stop\<close> fails and the session is idle again.
\<close>

theorem session_never_stuck_witness:
  "state ((WhisperDaemon_init 16000 1 ''auto'' True True :: nat WhisperDaemon)\<lparr> model_loaded := False \<rparr>) = IDLE
   \<and> state (run [(Start, calm_env []), (Audio (replicate 8001 (0, [])), calm_env [])]
        ((WhisperDaemon_init 16000 1 ''auto'' True True :: nat WhisperDaemon)\<lparr> model_loaded := False \<rparr>))
       = RECORDING
   \<and> fst (handle_stop_command (calm_env [])
        (run [(Start, calm_env []), (Audio (replicate 8001 (0, [])), calm_env [])]
          ((WhisperDaemon_init 16000 1 ''auto'' True True :: nat WhisperDaemon)\<lparr> model_loaded := False \<rparr>)))
       = Failure ''Failed to stop recording: Model not loaded''
   \<and> state (snd (handle_stop_command (calm_env [])
        (run [(Start, calm_env []), (Audio (replicate 8001 (0, [])), calm_env [])]
          ((WhisperDaemon_init 16000 1 ''auto'' True True :: nat WhisperDaemon)\<lparr> model_loaded := False \<rparr>))))
       = IDLE"
proof -
  let ?init = "(WhisperDaemon_init 16000 1 ''auto'' True True :: nat WhisperDaemon)\<lparr> model_loaded := False \<rparr>"
  let ?d = "run [(Start, calm_env []), (Audio (replicate 8001 (0, [])), calm_env [])] ?init"
  have h: "state ?init = IDLE" by (simp add: WhisperDaemon_init_def)
  have a: "state ?d = RECORDING" by (simp add: daemon_eval)
  have b: "fst (handle_stop_command (calm_env []) ?d) = Failure ''Failed to stop recording: Model not loaded''"
    by (simp add: daemon_eval)
  from session_never_stuck [OF h, of "[(Start, calm_env []), (Audio (replicate 8001 (0, [])), calm_env [])]"]
  have "state ?d = RECORDING \<longrightarrow> state (snd (handle_stop_command (calm_env []) ?d)) = IDLE"
    by (simp only: case_prod_unfold) blast
  with h a b show ?thesis by (simp only: simp_thms)
qed


end
